theory Spec2Isabelle
  imports Complex_Main
begin

section \<open>Tensors and the framework operations the notebook calls\<close>

text \<open>
  The notebook \<^verbatim>\<open>transformer_from_scratch.ipynb\<close> computes on framework tensors: a shape
  and the entries under it. A tensor of rank 2 or 3 is a record of its axis sizes and an
  entry function; only the entries whose indices lie under the shape belong to the tensor.
  Floating point values are modelled by exact reals, except where a score meets the mask
  penalty \<open>-1e9\<close>: that sum is rounded to float32, since its operands differ by more than
  float32's 24 bits of precision. Token indices are modelled by unbounded integers.
  What a run raises is a value of \<open>error\<close>: \<open>KeyError\<close> for a key a dictionary
  lacks, \<open>TensorError\<close> for an argument the tensor runtime refuses (shapes that do not
  fit, an empty list to concatenate).
\<close>

datatype error = KeyError | TensorError

record 'a tensor2 =
  rows2 :: nat
  cols2 :: nat
  elem2 :: "nat \<Rightarrow> nat \<Rightarrow> 'a"

record 'a tensor3 =
  dim0 :: nat
  dim1 :: nat
  dim2 :: nat
  elem3 :: "nat \<Rightarrow> nat \<Rightarrow> nat \<Rightarrow> 'a"

definition bind_result :: "error + 'a \<Rightarrow> ('a \<Rightarrow> error + 'b) \<Rightarrow> error + 'b" where
  "bind_result r f = (case r of Inl e \<Rightarrow> Inl e | Inr v \<Rightarrow> f v)"

text \<open>Tensors written out as nested lists, for concrete inputs.\<close>

definition of_rows2 :: "'a list list \<Rightarrow> 'a tensor2" where
  "of_rows2 xss =
     \<lparr>rows2 = length xss,
      cols2 = (case xss of [] \<Rightarrow> 0 | r # _ \<Rightarrow> length r),
      elem2 = (\<lambda>i j. xss ! i ! j)\<rparr>"

definition of_rows3 :: "'a list list list \<Rightarrow> 'a tensor3" where
  "of_rows3 xsss =
     \<lparr>dim0 = length xsss,
      dim1 = (case xsss of [] \<Rightarrow> 0 | m # _ \<Rightarrow> length m),
      dim2 = (case xsss of [] \<Rightarrow> 0 | m # _ \<Rightarrow> (case m of [] \<Rightarrow> 0 | r # _ \<Rightarrow> length r)),
      elem3 = (\<lambda>b i j. xsss ! b ! i ! j)\<rparr>"

text \<open>Reading a result: the shape and one entry, \<open>None\<close> on an error or outside the shape.\<close>

definition shape3 :: "error + 'a tensor3 \<Rightarrow> (nat \<times> nat \<times> nat) option" where
  "shape3 r = (case r of Inl e \<Rightarrow> None | Inr t \<Rightarrow> Some (dim0 t, dim1 t, dim2 t))"

definition entry3 :: "error + 'a tensor3 \<Rightarrow> nat \<Rightarrow> nat \<Rightarrow> nat \<Rightarrow> 'a option" where
  "entry3 r b i j =
     (case r of
        Inl e \<Rightarrow> None
      | Inr t \<Rightarrow> if b < dim0 t \<and> i < dim1 t \<and> j < dim2 t then Some (elem3 t b i j) else None)"

text \<open>
  Broadcasting of one axis: two sizes fit when they are equal or one of them is 1, and an
  axis of size 1 is read at index 0 whatever the index asked for.
\<close>

definition bdim :: "nat \<Rightarrow> nat \<Rightarrow> nat option" where
  "bdim m n = (if m = n then Some m else if m = 1 then Some n else if n = 1 then Some m else None)"

definition bidx :: "nat \<Rightarrow> nat \<Rightarrow> nat" where
  "bidx d i = (if d = 1 then 0 else i)"

definition tmap3 :: "('a \<Rightarrow> 'b) \<Rightarrow> 'a tensor3 \<Rightarrow> 'b tensor3" where
  "tmap3 f t = \<lparr>dim0 = dim0 t, dim1 = dim1 t, dim2 = dim2 t, elem3 = (\<lambda>b i j. f (elem3 t b i j))\<rparr>"

text \<open>An element-wise binary operation of the framework, with broadcasting on every axis.\<close>

definition broadcast3 ::
  "('a \<Rightarrow> 'b \<Rightarrow> 'c) \<Rightarrow> 'a tensor3 \<Rightarrow> 'b tensor3 \<Rightarrow> error + 'c tensor3" where
  "broadcast3 f x y =
     (case (bdim (dim0 x) (dim0 y), bdim (dim1 x) (dim1 y), bdim (dim2 x) (dim2 y)) of
        (Some n0, Some n1, Some n2) \<Rightarrow>
          Inr \<lparr>dim0 = n0, dim1 = n1, dim2 = n2,
               elem3 = (\<lambda>b i j. f (elem3 x (bidx (dim0 x) b) (bidx (dim1 x) i) (bidx (dim2 x) j))
                                   (elem3 y (bidx (dim0 y) b) (bidx (dim1 y) i) (bidx (dim2 y) j)))\<rparr>
      | _ \<Rightarrow> Inl TensorError)"

text \<open>\<^verbatim>\<open>tf.transpose(t, perm = [0,2,1])\<close> and \<^verbatim>\<open>tf.transpose(t, perm = [0,1,2])\<close>.\<close>

definition transpose_021 :: "'a tensor3 \<Rightarrow> 'a tensor3" where
  "transpose_021 t =
     \<lparr>dim0 = dim0 t, dim1 = dim2 t, dim2 = dim1 t, elem3 = (\<lambda>b i j. elem3 t b j i)\<rparr>"

definition transpose_012 :: "'a tensor3 \<Rightarrow> 'a tensor3" where
  "transpose_012 t =
     \<lparr>dim0 = dim0 t, dim1 = dim1 t, dim2 = dim2 t, elem3 = (\<lambda>b i j. elem3 t b i j)\<rparr>"

text \<open>
  \<^verbatim>\<open>tf.matmul\<close> on rank 3: a matrix product over the two trailing axes, the batch axis
  broadcast; the inner sizes must agree.
\<close>

definition matmul :: "('a::semiring_0) tensor3 \<Rightarrow> 'a tensor3 \<Rightarrow> error + 'a tensor3" where
  "matmul x y =
     (case bdim (dim0 x) (dim0 y) of
        None \<Rightarrow> Inl TensorError
      | Some n \<Rightarrow>
          if dim2 x \<noteq> dim1 y then Inl TensorError
          else Inr \<lparr>dim0 = n, dim1 = dim1 x, dim2 = dim2 y,
                    elem3 = (\<lambda>b i j. sum_list (map (\<lambda>k. elem3 x (bidx (dim0 x) b) i k *
                                                         elem3 y (bidx (dim0 y) b) k j)
                                                  [0..<dim2 x]))\<rparr>)"

text \<open>
  Rounding to float32, to nearest with ties to even: a value of binary exponent \<open>e\<close>
  (at least \<open>-126\<close>, the subnormal range) lies on a grid of spacing \<open>2\<^sup>e\<^sup>-\<^sup>2\<^sup>3\<close>. The exponent
  is counted, not taken from a logarithm, so that the definition computes. Magnitudes
  beyond the float32 range, which the hardware rounds to infinity, are outside the model.
\<close>

definition round_half_even :: "real \<Rightarrow> int" where
  "round_half_even y =
     (let f = \<lfloor>y\<rfloor>; r = y - of_int f
      in if r < 1 / 2 then f else if 1 / 2 < r then f + 1 else if even f then f else f + 1)"

definition float32_exponent :: "real \<Rightarrow> int" where
  "float32_exponent x = int (length (filter (\<lambda>k. 2 ^ k \<le> \<bar>x\<bar> * 2 ^ 126) [1..<254])) - 126"

definition float32 :: "real \<Rightarrow> real" where
  "float32 x =
     (let ulp = 2 powi (float32_exponent x - 23)
      in of_int (round_half_even (x / ulp)) * ulp)"

section \<open>Mask construction\<close>

text \<open>
  \<^verbatim>\<open>
  def outerprod(input_x):
      values = input_x[:, tf.newaxis, :]
      values = tf.matmul(tf.transpose(values, perm = [0,2,1]), values)
      return values
  \<close>
\<close>

definition newaxis1 :: "'a tensor2 \<Rightarrow> 'a tensor3" where
  "newaxis1 x = \<lparr>dim0 = rows2 x, dim1 = 1, dim2 = cols2 x, elem3 = (\<lambda>b i j. elem2 x b j)\<rparr>"

definition outerprod :: "('a::semiring_0) tensor2 \<Rightarrow> error + 'a tensor3" where
  "outerprod input_x = (let values = newaxis1 input_x in matmul (transpose_021 values) values)"

text \<open>
  \<^verbatim>\<open>
  def create_padding_mask(seq):
      seq = tf.cast(tf.math.equal(seq, 0), tf.float32)
      return seq
  \<close>
\<close>

definition create_padding_mask :: "('a::zero) tensor3 \<Rightarrow> real tensor3" where
  "create_padding_mask seq = tmap3 (\<lambda>v. if v then 1 else 0) (tmap3 (\<lambda>v. v = 0) seq)"

text \<open>
  \<^verbatim>\<open>
  def create_lookahead_mask(input_x):
      lookahead_mask = 1 - tf.linalg.band_part(tf.ones_like(input_x), -1, 0)
      return tf.cast(lookahead_mask, tf.float32)
  \<close>
  \<^verbatim>\<open>band_part(t, num_lower, num_upper)\<close> keeps entry \<open>(m, n)\<close> when
  \<open>(num_lower < 0 or m - n \<le> num_lower) and (num_upper < 0 or n - m \<le> num_upper)\<close>
  and writes 0 elsewhere.
\<close>

definition ones_like :: "'a tensor3 \<Rightarrow> ('b::one) tensor3" where
  "ones_like t = tmap3 (\<lambda>v. 1) t"

definition band_part :: "('a::zero) tensor3 \<Rightarrow> int \<Rightarrow> int \<Rightarrow> 'a tensor3" where
  "band_part t num_lower num_upper =
     \<lparr>dim0 = dim0 t, dim1 = dim1 t, dim2 = dim2 t,
      elem3 = (\<lambda>b m n.
        if (num_lower < 0 \<or> int m - int n \<le> num_lower) \<and>
           (num_upper < 0 \<or> int n - int m \<le> num_upper)
        then elem3 t b m n else 0)\<rparr>"

definition create_lookahead_mask :: "int tensor3 \<Rightarrow> real tensor3" where
  "create_lookahead_mask input_x =
     (let lookahead_mask = tmap3 (\<lambda>v. 1 - v) (band_part (ones_like input_x :: int tensor3) (- 1) 0)
      in tmap3 real_of_int lookahead_mask)"

text \<open>
  The masks as \<^verbatim>\<open>Encoder.call\<close> and \<^verbatim>\<open>Decoder.call\<close> build them from a batch of token
  sequences:
  \<^verbatim>\<open>
  padding_mask = create_padding_mask(outerprod(inputs))
  lookahead_mask = create_lookahead_mask(outerprod(output_prev))
  mask = tf.math.maximum(padding_mask, lookahead_mask)
  \<close>
\<close>

definition call_padding_mask :: "int tensor2 \<Rightarrow> error + real tensor3" where
  "call_padding_mask inputs = bind_result (outerprod inputs) (\<lambda>sq. Inr (create_padding_mask sq))"

definition call_lookahead_mask :: "int tensor2 \<Rightarrow> error + real tensor3" where
  "call_lookahead_mask output_prev =
     bind_result (outerprod output_prev) (\<lambda>sq. Inr (create_lookahead_mask sq))"

definition Decoder_call_mask :: "int tensor2 \<Rightarrow> error + real tensor3" where
  "Decoder_call_mask output_prev =
     bind_result (call_padding_mask output_prev) (\<lambda>padding_mask.
     bind_result (call_lookahead_mask output_prev) (\<lambda>lookahead_mask.
       broadcast3 max padding_mask lookahead_mask))"

text \<open>The number of entries equal to 1 in matrix \<open>b\<close> of a batch.\<close>

definition count_ones :: "real tensor3 \<Rightarrow> nat \<Rightarrow> nat" where
  "count_ones t b =
     sum_list (map (\<lambda>i. length (filter (\<lambda>j. elem3 t b i j = 1) [0..<dim2 t])) [0..<dim1 t])"

definition count_ones3 :: "error + real tensor3 \<Rightarrow> nat \<Rightarrow> nat option" where
  "count_ones3 r b = (case r of Inl e \<Rightarrow> None | Inr t \<Rightarrow> Some (count_ones t b))"

text \<open>The batch \<open>[[5, 0]]\<close>: one sequence, a token followed by one pad position.\<close>

definition tokens_5_0 :: "int tensor2" where
  "tokens_5_0 = of_rows2 [[5, 0]]"

section \<open>Positional encoding\<close>

text \<open>
  \<^verbatim>\<open>
  def pos_encoding_mask(self, inputs):
      pos_arr = tf.range(start = 0, limit = tf.shape(inputs)[1] , dtype = tf.float32)[:, np.newaxis]
      i_arr = tf.range(start = 0, limit = self.d_model , dtype = tf.float32)[np.newaxis, :]
      omega = 1 / np.power(10000, (2 * (i_arr//2)) / np.float32(self.d_model))
      angles = np.matmul(pos_arr, i_arr)
      pos_mask = np.zeros((tf.shape(inputs)[1], self.d_model))
      pos_mask[:,0::2] = tf.math.cos(angles)[:,0::2]
      pos_mask[:,1::2] = tf.math.sin(angles)[:,1::2]
      pos_mask = tf.convert_to_tensor(pos_mask, dtype = tf.float32)
      return pos_mask

  def call(self, inputs):
      pos_mask = self.pos_encoding_mask(inputs)
      return tf.math.add(inputs, pos_mask)
  \<close>
\<close>

definition tmap2 :: "('a \<Rightarrow> 'b) \<Rightarrow> 'a tensor2 \<Rightarrow> 'b tensor2" where
  "tmap2 f t = \<lparr>rows2 = rows2 t, cols2 = cols2 t, elem2 = (\<lambda>i j. f (elem2 t i j))\<rparr>"

definition range_column :: "nat \<Rightarrow> real tensor2" where
  \<comment> \<open>\<^verbatim>\<open>tf.range(start = 0, limit = n, dtype = tf.float32)[:, np.newaxis]\<close>\<close>
  "range_column n = \<lparr>rows2 = n, cols2 = 1, elem2 = (\<lambda>i j. real i)\<rparr>"

definition range_row :: "nat \<Rightarrow> real tensor2" where
  \<comment> \<open>\<^verbatim>\<open>tf.range(start = 0, limit = n, dtype = tf.float32)[np.newaxis, :]\<close>\<close>
  "range_row n = \<lparr>rows2 = 1, cols2 = n, elem2 = (\<lambda>i j. real j)\<rparr>"

definition np_matmul :: "real tensor2 \<Rightarrow> real tensor2 \<Rightarrow> error + real tensor2" where
  "np_matmul x y =
     (if cols2 x \<noteq> rows2 y then Inl TensorError
      else Inr \<lparr>rows2 = rows2 x, cols2 = cols2 y,
                elem2 = (\<lambda>i j. sum_list (map (\<lambda>k. elem2 x i k * elem2 y k j) [0..<cols2 x]))\<rparr>)"

definition zeros2 :: "nat \<Rightarrow> nat \<Rightarrow> real tensor2" where
  "zeros2 m n = \<lparr>rows2 = m, cols2 = n, elem2 = (\<lambda>i j. 0)\<rparr>"

definition assign_columns :: "nat \<Rightarrow> real tensor2 \<Rightarrow> real tensor2 \<Rightarrow> real tensor2" where
  \<comment> \<open>\<^verbatim>\<open>dst[:, start::2] = src[:, start::2]\<close>, for \<open>dst\<close> and \<open>src\<close> of one shape\<close>
  "assign_columns start dst src =
     \<lparr>rows2 = rows2 dst, cols2 = cols2 dst,
      elem2 = (\<lambda>i j. if start \<le> j \<and> even (j - start) then elem2 src i j else elem2 dst i j)\<rparr>"

definition rank3 :: "'a tensor2 \<Rightarrow> 'a tensor3" where
  \<comment> \<open>broadcasting reads a tensor of rank 2 as one of rank 3 with a leading axis of size 1\<close>
  "rank3 t = \<lparr>dim0 = 1, dim1 = rows2 t, dim2 = cols2 t, elem3 = (\<lambda>b i j. elem2 t i j)\<rparr>"

definition pos_encoding_mask :: "nat \<Rightarrow> real tensor3 \<Rightarrow> error + real tensor2" where
  "pos_encoding_mask self_d_model inputs =
     (let pos_arr = range_column (dim1 inputs);
          i_arr = range_row self_d_model;
          omega = tmap2 (\<lambda>i. 1 / (10000 powr ((2 * of_int \<lfloor>i / 2\<rfloor>) / real self_d_model))) i_arr
      in bind_result (np_matmul pos_arr i_arr) (\<lambda>angles.
           let pos_mask = zeros2 (dim1 inputs) self_d_model;
               pos_mask = assign_columns 0 pos_mask (tmap2 cos angles);
               pos_mask = assign_columns 1 pos_mask (tmap2 sin angles)
           in Inr pos_mask))"

definition PositionalEncodingLayer_call :: "nat \<Rightarrow> real tensor3 \<Rightarrow> error + real tensor3" where
  "PositionalEncodingLayer_call self_d_model inputs =
     bind_result (pos_encoding_mask self_d_model inputs) (\<lambda>pos_mask.
       broadcast3 (+) inputs (rank3 pos_mask))"

section \<open>Multi-headed attention\<close>

text \<open>
  A dense layer \<^verbatim>\<open>tf.keras.layers.Dense(units, activation = 'relu')\<close> maps every feature
  row \<open>x\<close> to \<open>relu (x \<cdot> kernel + bias)\<close>; its weights are made for the width of the
  first input it sees. Normalization and dropout layers are functions on tensors that
  the framework supplies.
\<close>

record dense_weights =
  w_kernel :: "nat \<Rightarrow> nat \<Rightarrow> real"
  w_bias :: "nat \<Rightarrow> real"

record dense_layer =
  units :: nat
  kernel :: "nat \<Rightarrow> nat \<Rightarrow> real"
  bias :: "nat \<Rightarrow> real"

definition Dense :: "nat \<Rightarrow> dense_weights \<Rightarrow> dense_layer" where
  "Dense n w = \<lparr>units = n, kernel = w_kernel w, bias = w_bias w\<rparr>"

definition relu :: "real \<Rightarrow> real" where
  "relu v = max 0 v"

definition Dense_call :: "dense_layer \<Rightarrow> real tensor3 \<Rightarrow> real tensor3" where
  "Dense_call l x =
     \<lparr>dim0 = dim0 x, dim1 = dim1 x, dim2 = units l,
      elem3 = (\<lambda>b i j. relu (sum_list (map (\<lambda>k. elem3 x b i k * kernel l k j) [0..<dim2 x])
                               + bias l j))\<rparr>"

text \<open>
  The layer object: \<^verbatim>\<open>__init__\<close> stores \<^verbatim>\<open>self.n_heads\<close> and \<^verbatim>\<open>self.d_model\<close>,
  \<^verbatim>\<open>build\<close> adds the sub-layers.
\<close>

record mha_config =
  cfg_n_heads :: int
  cfg_d_model :: nat

record MultiHeadedAttention =
  self_n_heads :: int
  self_d_model :: nat
  kernels :: "int \<rightharpoonup> (string \<rightharpoonup> dense_layer)"
  attention_normalization :: "real tensor3 \<Rightarrow> real tensor3"
  linear_output_layer :: dense_layer
  res_normalization_layer :: "real tensor3 \<Rightarrow> real tensor3"
  res_linear_layer :: dense_layer
  dropout :: "real tensor3 \<Rightarrow> real tensor3"

text \<open>What the framework hands to \<^verbatim>\<open>build\<close>: initial weights and its own layers.\<close>

record layer_supply =
  kernel_weights :: "int \<Rightarrow> string \<Rightarrow> dense_weights"
  linear_output_weights :: dense_weights
  res_linear_weights :: dense_weights
  new_attention_normalization :: "real tensor3 \<Rightarrow> real tensor3"
  new_res_normalization :: "real tensor3 \<Rightarrow> real tensor3"
  new_dropout :: "real tensor3 \<Rightarrow> real tensor3"

definition range_py :: "int \<Rightarrow> int list" where
  \<comment> \<open>Python's \<^verbatim>\<open>range(n)\<close>: empty when \<open>n \<le> 0\<close>\<close>
  "range_py n = map int [0..<nat n]"

definition kernel_types :: "string list" where
  "kernel_types = [''query'', ''key'', ''value'']"

text \<open>
  \<^verbatim>\<open>
  def build(self, input_shape):
      self.kernels = {head_ind:{} for head_ind in range(n_heads)}
      kernel_types = ["query", "key", "value"]
      for head_ind in range(n_heads):
          for kernel_type in kernel_types:
              self.kernels[head_ind][kernel_type] = tf.keras.layers.Dense(self.d_model,
                                                                          activation = 'relu')
      self.attention_normalization = tf.keras.layers.Normalization()
      self.linear_output_layer = tf.keras.layers.Dense(self.d_model, activation = 'relu')
      self.res_normalization_layer = tf.keras.layers.Normalization()
      self.res_linear_layer = tf.keras.layers.Dense(self.d_model, activation = 'relu')
      self.dropout = tf.keras.layers.Dropout(0.2)
  \<close>
  Here \<^verbatim>\<open>n_heads\<close> is the notebook's global variable, not \<^verbatim>\<open>self.n_heads\<close>; it is the
  first argument of the model.
\<close>

definition set_kernel ::
  "(int \<rightharpoonup> (string \<rightharpoonup> dense_layer)) \<Rightarrow> int \<Rightarrow> string \<Rightarrow> dense_layer
     \<Rightarrow> error + (int \<rightharpoonup> (string \<rightharpoonup> dense_layer))" where
  \<comment> \<open>\<^verbatim>\<open>kernels[head_ind][kernel_type] = l\<close>\<close>
  "set_kernel ks head_ind kernel_type l =
     (case ks head_ind of
        None \<Rightarrow> Inl KeyError
      | Some d \<Rightarrow> Inr (ks(head_ind \<mapsto> d(kernel_type \<mapsto> l))))"

fun build_kernels ::
  "nat \<Rightarrow> layer_supply \<Rightarrow> (int \<rightharpoonup> (string \<rightharpoonup> dense_layer)) \<Rightarrow> (int \<times> string) list
     \<Rightarrow> error + (int \<rightharpoonup> (string \<rightharpoonup> dense_layer))" where
  "build_kernels d s ks [] = Inr ks"
| "build_kernels d s ks ((head_ind, kernel_type) # rest) =
     bind_result (set_kernel ks head_ind kernel_type (Dense d (kernel_weights s head_ind kernel_type)))
       (\<lambda>ks'. build_kernels d s ks' rest)"

definition MultiHeadedAttention_build ::
  "int \<Rightarrow> layer_supply \<Rightarrow> mha_config \<Rightarrow> error + MultiHeadedAttention" where
  "MultiHeadedAttention_build n_heads s cfg =
     (let kernels0 = map_of (map (\<lambda>head_ind. (head_ind, Map.empty)) (range_py n_heads))
      in bind_result
           (build_kernels (cfg_d_model cfg) s kernels0 (List.product (range_py n_heads) kernel_types))
           (\<lambda>ks. Inr \<lparr>self_n_heads = cfg_n_heads cfg,
                       self_d_model = cfg_d_model cfg,
                       kernels = ks,
                       attention_normalization = new_attention_normalization s,
                       linear_output_layer = Dense (cfg_d_model cfg) (linear_output_weights s),
                       res_normalization_layer = new_res_normalization s,
                       res_linear_layer = Dense (cfg_d_model cfg) (res_linear_weights s),
                       dropout = new_dropout s\<rparr>))"

text \<open>
  \<^verbatim>\<open>
  def call(self, inputs, padding_mask = None):
      query_inp, key_inp, value_inp = inputs
      all_values = []
      for head_ind in range(self.n_heads):
          queries = self.kernels[head_ind]["query"](query_inp)
          keys = self.kernels[head_ind]["key"](key_inp)
          scores = tf.matmul(queries, tf.transpose(keys, perm = [0,2,1]))
          d_k = (tf.shape(scores).numpy()[-1])
          scaled_scores = (1/np.sqrt(d_k))*scores
          if padding_mask is not None:
              scaled_scores += (padding_mask*-1e9)
          softmax_scores = tf.keras.activations.softmax(scaled_scores, axis = 2)
          values = tf.matmul(softmax_scores, tf.transpose(value_inp, perm = [0,1,2]))
          all_values.append(values)
      all_values = tf.concat(all_values, axis = 2)
      normalized_values = self.attention_normalization(all_values)
      linear_layer_values = self.dropout(self.linear_output_layer(normalized_values))
      residual_connection = tf.math.add(query_inp, linear_layer_values)
      linear_layer_out = self.res_linear_layer(residual_connection)
      output = self.res_normalization_layer(linear_layer_out)
      return output
  \<close>
  The body of the loop is split at the values the properties below speak of: the raw
  scores, the rescaled scores, the softmax weights and the head's output.
\<close>

definition get_kernel :: "MultiHeadedAttention \<Rightarrow> int \<Rightarrow> string \<Rightarrow> error + dense_layer" where
  \<comment> \<open>\<^verbatim>\<open>self.kernels[head_ind][kernel_type]\<close>\<close>
  "get_kernel self head_ind kernel_type =
     (case kernels self head_ind of
        None \<Rightarrow> Inl KeyError
      | Some d \<Rightarrow> (case d kernel_type of None \<Rightarrow> Inl KeyError | Some l \<Rightarrow> Inr l))"

definition head_scores ::
  "MultiHeadedAttention \<Rightarrow> int \<Rightarrow> real tensor3 \<Rightarrow> real tensor3 \<Rightarrow> error + real tensor3" where
  "head_scores self head_ind query_inp key_inp =
     bind_result (get_kernel self head_ind ''query'') (\<lambda>query_layer.
       let queries = Dense_call query_layer query_inp in
       bind_result (get_kernel self head_ind ''key'') (\<lambda>key_layer.
         let keys = Dense_call key_layer key_inp in
         matmul queries (transpose_021 keys)))"

definition rescale :: "real tensor3 \<Rightarrow> real tensor3" where
  \<comment> \<open>\<^verbatim>\<open>d_k\<close> is the size of the trailing axis of \<^verbatim>\<open>scores\<close>; when it is 0 the tensor has no entry\<close>
  "rescale scores = (let d_k = dim2 scores in tmap3 (\<lambda>v. (1 / sqrt (real d_k)) * v) scores)"

definition apply_mask :: "real tensor3 option \<Rightarrow> real tensor3 \<Rightarrow> error + real tensor3" where
  \<comment> \<open>\<^verbatim>\<open>scaled_scores += (padding_mask*-1e9)\<close>, the product and the sum in float32\<close>
  "apply_mask padding_mask scaled_scores =
     (case padding_mask of
        None \<Rightarrow> Inr scaled_scores
      | Some m \<Rightarrow>
          broadcast3 (\<lambda>score penalty. float32 (score + penalty)) scaled_scores
            (tmap3 (\<lambda>v. float32 (v * (- 1000000000))) m))"

definition softmax_axis2 :: "real tensor3 \<Rightarrow> real tensor3" where
  "softmax_axis2 t =
     \<lparr>dim0 = dim0 t, dim1 = dim1 t, dim2 = dim2 t,
      elem3 = (\<lambda>b i j. exp (elem3 t b i j) / sum_list (map (\<lambda>k. exp (elem3 t b i k)) [0..<dim2 t]))\<rparr>"

definition head_weights ::
  "MultiHeadedAttention \<Rightarrow> int \<Rightarrow> real tensor3 \<Rightarrow> real tensor3 \<Rightarrow> real tensor3 option
     \<Rightarrow> error + real tensor3" where
  "head_weights self head_ind query_inp key_inp padding_mask =
     bind_result (head_scores self head_ind query_inp key_inp) (\<lambda>scores.
       bind_result (apply_mask padding_mask (rescale scores)) (\<lambda>scaled_scores.
         Inr (softmax_axis2 scaled_scores)))"

definition attention_head ::
  "MultiHeadedAttention \<Rightarrow> int \<Rightarrow> real tensor3 \<times> real tensor3 \<times> real tensor3
     \<Rightarrow> real tensor3 option \<Rightarrow> error + real tensor3" where
  "attention_head self head_ind inputs padding_mask =
     (case inputs of (query_inp, key_inp, value_inp) \<Rightarrow>
        bind_result (head_weights self head_ind query_inp key_inp padding_mask) (\<lambda>softmax_scores.
          matmul softmax_scores (transpose_012 value_inp)))"

fun heads_loop ::
  "MultiHeadedAttention \<Rightarrow> real tensor3 \<times> real tensor3 \<times> real tensor3 \<Rightarrow> real tensor3 option
     \<Rightarrow> int list \<Rightarrow> real tensor3 list \<Rightarrow> error + real tensor3 list" where
  "heads_loop self inputs padding_mask [] all_values = Inr all_values"
| "heads_loop self inputs padding_mask (head_ind # rest) all_values =
     bind_result (attention_head self head_ind inputs padding_mask) (\<lambda>values.
       heads_loop self inputs padding_mask rest (all_values @ [values]))"

fun concat_axis2 :: "'a tensor3 list \<Rightarrow> error + 'a tensor3" where
  "concat_axis2 [] = Inl TensorError"
| "concat_axis2 [t] = Inr t"
| "concat_axis2 (t # ts) =
     bind_result (concat_axis2 ts) (\<lambda>r.
       if dim0 t = dim0 r \<and> dim1 t = dim1 r
       then Inr \<lparr>dim0 = dim0 t, dim1 = dim1 t, dim2 = dim2 t + dim2 r,
                 elem3 = (\<lambda>b i j. if j < dim2 t then elem3 t b i j else elem3 r b i (j - dim2 t))\<rparr>
       else Inl TensorError)"

definition attention_block ::
  "MultiHeadedAttention \<Rightarrow> real tensor3 \<times> real tensor3 \<times> real tensor3 \<Rightarrow> real tensor3 option
     \<Rightarrow> error + real tensor3" where
  \<comment> \<open>the value of \<^verbatim>\<open>linear_layer_values\<close>\<close>
  "attention_block self inputs padding_mask =
     bind_result (heads_loop self inputs padding_mask (range_py (self_n_heads self)) []) (\<lambda>all_values.
       bind_result (concat_axis2 all_values) (\<lambda>all_values.
         let normalized_values = attention_normalization self all_values;
             linear_layer_values = dropout self (Dense_call (linear_output_layer self) normalized_values)
         in Inr linear_layer_values))"

definition MultiHeadedAttention_call ::
  "MultiHeadedAttention \<Rightarrow> real tensor3 \<times> real tensor3 \<times> real tensor3 \<Rightarrow> real tensor3 option
     \<Rightarrow> error + real tensor3" where
  "MultiHeadedAttention_call self inputs padding_mask =
     (case inputs of (query_inp, key_inp, value_inp) \<Rightarrow>
        bind_result (attention_block self inputs padding_mask) (\<lambda>linear_layer_values.
          bind_result (broadcast3 (+) query_inp linear_layer_values) (\<lambda>residual_connection.
            let linear_layer_out = Dense_call (res_linear_layer self) residual_connection;
                output = res_normalization_layer self linear_layer_out
            in Inr output)))"

text \<open>
  The same layer object with the \<^verbatim>\<open>"value"\<close> entry of every head's dictionary replaced
  (or removed, where \<open>v\<close> gives \<open>None\<close>).
\<close>

definition replace_value_kernels ::
  "(int \<Rightarrow> dense_layer option) \<Rightarrow> MultiHeadedAttention \<Rightarrow> MultiHeadedAttention" where
  "replace_value_kernels v self =
     self\<lparr>kernels := (\<lambda>head_ind. map_option (\<lambda>d. d(''value'' := v head_ind)) (kernels self head_ind))\<rparr>"

text \<open>Whether a dictionary of kernels holds a layer under a head index and a kernel type.\<close>

definition has_kernel :: "(int \<rightharpoonup> (string \<rightharpoonup> dense_layer)) \<Rightarrow> int \<Rightarrow> string \<Rightarrow> bool" where
  "has_kernel ks h kt = (case ks h of None \<Rightarrow> False | Some d \<Rightarrow> d kt \<noteq> None)"

text \<open>A first forward pass of a fresh layer: the framework runs \<^verbatim>\<open>build\<close>, then \<^verbatim>\<open>call\<close>.\<close>

definition MultiHeadedAttention_forward ::
  "int \<Rightarrow> layer_supply \<Rightarrow> mha_config \<Rightarrow> real tensor3 \<times> real tensor3 \<times> real tensor3
     \<Rightarrow> real tensor3 option \<Rightarrow> error + real tensor3" where
  "MultiHeadedAttention_forward n_heads s cfg inputs padding_mask =
     bind_result (MultiHeadedAttention_build n_heads s cfg) (\<lambda>self.
       MultiHeadedAttention_call self inputs padding_mask)"

section \<open>Encoder and decoder construction\<close>

text \<open>
  The variables the notebook's cells define at top level and the classes read:
  the tokenizer's vocabulary sizes, \<^verbatim>\<open>d_model\<close> and \<^verbatim>\<open>n_heads\<close>.
\<close>

record globals =
  pt_vocab_size :: int
  en_vocab_size :: int
  d_model :: nat
  n_heads :: int

record Embedding =
  input_dim :: int
  output_dim :: nat
  input_length :: "nat option"

record Encoder_layers =
  enc_embedding_layer :: Embedding
  enc_pos_encoding_layer :: nat
  enc_multiheadedattention :: mha_config

record Decoder_layers =
  embedding_layer :: Embedding
  pos_encoding_layer :: nat
  multiheadedattention_1 :: mha_config
  multiheadedattention_2 :: mha_config
  softmax_layer_units :: int

text \<open>
  \<^verbatim>\<open>
  class Encoder:
      def build(self, input_shape):
          input_length = input_shape[1]
          self.embedding_layer = tf.keras.layers.Embedding(input_dim = pt_vocab_size,
                                                      output_dim = self.embedding_dim,
                                                      input_length = input_length)
          self.pos_encoding_layer = PositionalEncodingLayer(self.embedding_dim)
          self.multiheadedattention = MultiHeadedAttention(n_heads = self.n_heads, d_model = self.embedding_dim)
  class Decoder:
      def build(self, input_shape):
          input_length = input_shape[1]
          self.embedding_layer = tf.keras.layers.Embedding(input_dim = pt_vocab_size,
                                                      output_dim = self.embedding_dim,
                                                      input_length = input_length)
          self.pos_encoding_layer = PositionalEncodingLayer(self.embedding_dim)
          self.multiheadedattention_1 = MultiHeadedAttention(n_heads = self.n_heads,
                                                           d_model = self.embedding_dim)
          self.multiheadedattention_2 = MultiHeadedAttention(n_heads = self.n_heads,
                                                           d_model = self.embedding_dim)
          self.softmax_layer = tf.keras.layers.Dense(en_vocab_size, activation = 'softmax')
  \<close>
  The arguments after the globals are \<^verbatim>\<open>self.embedding_dim\<close>, \<^verbatim>\<open>self.n_heads\<close> and
  \<^verbatim>\<open>input_shape[1]\<close>.
\<close>

definition Encoder_build :: "globals \<Rightarrow> nat \<Rightarrow> int \<Rightarrow> nat option \<Rightarrow> Encoder_layers" where
  "Encoder_build g self_embedding_dim self_n_heads' input_length' =
     \<lparr>enc_embedding_layer =
        \<lparr>input_dim = pt_vocab_size g, output_dim = self_embedding_dim, input_length = input_length'\<rparr>,
      enc_pos_encoding_layer = self_embedding_dim,
      enc_multiheadedattention = \<lparr>cfg_n_heads = self_n_heads', cfg_d_model = self_embedding_dim\<rparr>\<rparr>"

definition Decoder_build :: "globals \<Rightarrow> nat \<Rightarrow> int \<Rightarrow> nat option \<Rightarrow> Decoder_layers" where
  "Decoder_build g self_embedding_dim self_n_heads' input_length' =
     \<lparr>embedding_layer =
        \<lparr>input_dim = pt_vocab_size g, output_dim = self_embedding_dim, input_length = input_length'\<rparr>,
      pos_encoding_layer = self_embedding_dim,
      multiheadedattention_1 = \<lparr>cfg_n_heads = self_n_heads', cfg_d_model = self_embedding_dim\<rparr>,
      multiheadedattention_2 = \<lparr>cfg_n_heads = self_n_heads', cfg_d_model = self_embedding_dim\<rparr>,
      softmax_layer_units = en_vocab_size g\<rparr>"

text \<open>Whether a lookup table has a row for a token: its rows are \<open>0 .. input_dim - 1\<close>.\<close>

definition in_table :: "Embedding \<Rightarrow> int \<Rightarrow> bool" where
  "in_table e token = (0 \<le> token \<and> token < input_dim e)"

section \<open>Concrete inputs\<close>

text \<open>
  A tokenizer pair whose source vocabulary has 7000 entries and whose target vocabulary
  has 8000, with the notebook's \<^verbatim>\<open>d_model = 20\<close> and \<^verbatim>\<open>n_heads = 8\<close>.
\<close>

definition example_globals :: globals where
  "example_globals = \<lparr>pt_vocab_size = 7000, en_vocab_size = 8000, d_model = 20, n_heads = 8\<rparr>"

text \<open>One sequence of two positions with two features each.\<close>

definition embedded_2x2 :: "real tensor3" where
  "embedded_2x2 = of_rows3 [[[1, 2], [3, 4]]]"

text \<open>
  An attention layer of one head and model width 1 whose dense layers all have kernel 1
  and bias 0, and whose normalization and dropout layers return their input.
\<close>

definition unit_weights :: dense_weights where
  "unit_weights = \<lparr>w_kernel = (\<lambda>k j. 1), w_bias = (\<lambda>j. 0)\<rparr>"

definition unit_supply :: layer_supply where
  "unit_supply =
     \<lparr>kernel_weights = (\<lambda>head_ind kernel_type. unit_weights),
      linear_output_weights = unit_weights,
      res_linear_weights = unit_weights,
      new_attention_normalization = (\<lambda>t. t),
      new_res_normalization = (\<lambda>t. t),
      new_dropout = (\<lambda>t. t)\<rparr>"

definition unit_self :: MultiHeadedAttention where
  "unit_self =
     \<lparr>self_n_heads = 1,
      self_d_model = 1,
      kernels = [0 \<mapsto> [''query'' \<mapsto> Dense 1 unit_weights, ''key'' \<mapsto> Dense 1 unit_weights,
                         ''value'' \<mapsto> Dense 1 unit_weights]],
      attention_normalization = (\<lambda>t. t),
      linear_output_layer = Dense 1 unit_weights,
      res_normalization_layer = (\<lambda>t. t),
      res_linear_layer = Dense 1 unit_weights,
      dropout = (\<lambda>t. t)\<rparr>"

text \<open>
  One query position with feature 16; four key positions with features 0, 0, 0 and 32;
  a mask whose only row is all ones.
\<close>

definition query_16 :: "real tensor3" where
  "query_16 = of_rows3 [[[16]]]"

definition keys_0_0_0_32 :: "real tensor3" where
  "keys_0_0_0_32 = of_rows3 [[[0], [0], [0], [32]]]"

definition mask_all_ones :: "real tensor3" where
  "mask_all_ones = of_rows3 [[[1, 1, 1, 1]]]"



definition query_minus_16 :: "real tensor3" where
  "query_minus_16 = of_rows3 [[[- 16]]]"

section \<open>Properties of the masks\<close>

lemma bidx_same: "b < d \<Longrightarrow> bidx d b = b"
  by (auto simp: bidx_def)

lemma outerprod_value:
  "\<exists>sq. outerprod x = Inr sq \<and> dim0 sq = rows2 x \<and> dim1 sq = cols2 x \<and> dim2 sq = cols2 x \<and>
     (\<forall>b i j. b < rows2 x \<longrightarrow> elem3 sq b i j = elem2 x b i * elem2 x b j)"
  by (simp add: outerprod_def matmul_def newaxis1_def transpose_021_def bdim_def bidx_same Let_def)

lemma call_padding_mask_value:
  "\<exists>m. call_padding_mask x = Inr m \<and> dim0 m = rows2 x \<and> dim1 m = cols2 x \<and> dim2 m = cols2 x \<and>
     (\<forall>b i j. b < rows2 x \<longrightarrow>
        elem3 m b i j = (if elem2 x b i = 0 \<or> elem2 x b j = 0 then 1 else 0))"
proof -
  obtain sq where sq: "outerprod x = Inr sq" "dim0 sq = rows2 x" "dim1 sq = cols2 x"
    "dim2 sq = cols2 x" "\<forall>b i j. b < rows2 x \<longrightarrow> elem3 sq b i j = elem2 x b i * elem2 x b j"
    using outerprod_value [of x] by blast
  show ?thesis
    using sq by (simp add: call_padding_mask_def bind_result_def create_padding_mask_def tmap3_def)
qed

lemma tokens_5_0_simps:
  "rows2 tokens_5_0 = 1" "cols2 tokens_5_0 = 2"
  "elem2 tokens_5_0 0 0 = 5" "elem2 tokens_5_0 0 (Suc 0) = 0"
  by (simp_all add: tokens_5_0_def of_rows2_def)

text \<open>
  C1, as the code has it. The padding mask of a batch of token sequences has shape
  (batch, length, length), and its entry at query position \<open>i\<close> and key position \<open>j\<close> is 1
  exactly when the token at \<open>i\<close> or the token at \<open>j\<close> is the pad index 0, and 0 otherwise:
  the outer product \<open>x\<^sub>i * x\<^sub>j\<close> is compared with 0. A row at a query position that holds a
  token is the pad indicator of the keys; a row at a pad query position is all ones.
\<close>

theorem padding_mask_marks_pad_query_or_key:
  "shape3 (call_padding_mask x) = Some (rows2 x, cols2 x, cols2 x) \<and>
   (b < rows2 x \<and> i < cols2 x \<and> j < cols2 x \<longrightarrow>
      entry3 (call_padding_mask x) b i j =
        Some (if elem2 x b i = 0 \<or> elem2 x b j = 0 then 1 else 0))"
proof -
  obtain m where m: "call_padding_mask x = Inr m" "dim0 m = rows2 x" "dim1 m = cols2 x"
    "dim2 m = cols2 x"
    "\<forall>b i j. b < rows2 x \<longrightarrow>
       elem3 m b i j = (if elem2 x b i = 0 \<or> elem2 x b j = 0 then 1 else 0)"
    using call_padding_mask_value [of x] by blast
  show ?thesis using m by (simp add: shape3_def entry3_def)
qed

theorem padding_mask_marks_pad_query_or_key_witness:
  "entry3 (call_padding_mask tokens_5_0) 0 0 1 = Some 1 \<and>
   entry3 (call_padding_mask tokens_5_0) 0 0 0 = Some 0 \<and>
   entry3 (call_padding_mask tokens_5_0) 0 1 1 = Some 1"
  using padding_mask_marks_pad_query_or_key [of tokens_5_0 0 0 1]
    padding_mask_marks_pad_query_or_key [of tokens_5_0 0 0 0]
    padding_mask_marks_pad_query_or_key [of tokens_5_0 0 1 1]
  by (simp add: tokens_5_0_simps)

text \<open>
  C1 as the specification states it fails on the batch \<open>[[5, 0]]\<close>: the entry at query
  position 1 (a pad) and key position 0 is 1 although key position 0 holds token 5, and
  the rows at query positions 0 and 1 differ in column 0.
\<close>

theorem padding_mask_rows_counterexample:
  "entry3 (call_padding_mask tokens_5_0) 0 1 0 = Some 1 \<and> elem2 tokens_5_0 0 0 = 5 \<and>
   entry3 (call_padding_mask tokens_5_0) 0 0 0 = Some 0"
  by (simp add: call_padding_mask_def outerprod_def matmul_def newaxis1_def transpose_021_def
      bdim_def bidx_def Let_def bind_result_def create_padding_mask_def tmap3_def entry3_def
      tokens_5_0_def of_rows2_def)

lemma call_lookahead_mask_value:
  "\<exists>m. call_lookahead_mask x = Inr m \<and> dim0 m = rows2 x \<and> dim1 m = cols2 x \<and>
     dim2 m = cols2 x \<and> (\<forall>b i j. elem3 m b i j = (if i < j then 1 else 0))"
proof -
  obtain sq where sq: "outerprod x = Inr sq" "dim0 sq = rows2 x" "dim1 sq = cols2 x"
    "dim2 sq = cols2 x"
    using outerprod_value [of x] by blast
  show ?thesis
    using sq by (auto simp add: call_lookahead_mask_def bind_result_def create_lookahead_mask_def
        tmap3_def band_part_def ones_like_def Let_def)
qed

lemma count_above_diagonal: "length (filter (\<lambda>j. i < j) [0..<n]) = n - Suc i"
  by (induction n) auto

lemma sum_below: "sum_list (map (\<lambda>i. n - Suc i) [0..<n]) = n * (n - 1) div 2"
proof -
  have "sum_list (map (\<lambda>i. n - Suc i) [0..<n]) = (\<Sum>i<n. n - Suc i)"
    by (simp add: interv_sum_list_conv_sum_set_nat atLeast0LessThan)
  also have "\<dots> = (\<Sum>i<n. i)"
    by (rule sum.nat_diff_reindex)
  also have "\<dots> = n * (n - 1) div 2"
  proof (cases n)
    case 0
    then show ?thesis by simp
  next
    case (Suc m)
    have "\<Sum> {..<Suc m} = \<Sum> {0..m}"
      by (simp add: lessThan_Suc_atMost atMost_atLeast0)
    also have "\<dots> = m * Suc m div 2"
      by (rule gauss_sum_nat)
    finally show ?thesis using Suc by (simp add: mult.commute)
  qed
  finally show ?thesis .
qed

lemma count_ones_strictly_upper:
  assumes "\<forall>i j. elem3 m b i j = (if i < j then 1 else 0)" and "dim1 m = n" and "dim2 m = n"
  shows "count_ones m b = n * (n - 1) div 2"
proof -
  have "(\<lambda>j. elem3 m b i j = 1) = (\<lambda>j. i < j)" for i
    using assms(1) by auto
  then show ?thesis
    using assms(2,3) by (simp add: count_ones_def count_above_diagonal sum_below)
qed

text \<open>
  C7. For a batch of target-history sequences of length \<open>L\<close>, the lookahead mask built
  from the squared input has shape (batch, L, L), its entry at \<open>(i, j)\<close> is 1 exactly when
  \<open>j > i\<close> and 0 otherwise, and each matrix of the batch holds \<open>L * (L - 1) / 2\<close> ones.
\<close>

theorem lookahead_mask_strictly_upper:
  "shape3 (call_lookahead_mask x) = Some (rows2 x, cols2 x, cols2 x) \<and>
   count_ones3 (call_lookahead_mask x) b = Some (cols2 x * (cols2 x - 1) div 2) \<and>
   (b < rows2 x \<and> i < cols2 x \<and> j < cols2 x \<longrightarrow>
      entry3 (call_lookahead_mask x) b i j = Some (if i < j then 1 else 0))"
proof -
  obtain m where m: "call_lookahead_mask x = Inr m" "dim0 m = rows2 x" "dim1 m = cols2 x"
    "dim2 m = cols2 x" "\<forall>b i j. elem3 m b i j = (if i < j then 1 else 0)"
    using call_lookahead_mask_value [of x] by blast
  have "count_ones m b = cols2 x * (cols2 x - 1) div 2"
    using m by (intro count_ones_strictly_upper) auto
  then show ?thesis using m by (simp add: shape3_def entry3_def count_ones3_def)
qed

theorem lookahead_mask_strictly_upper_witness:
  "entry3 (call_lookahead_mask tokens_5_0) 0 0 1 = Some 1 \<and>
   entry3 (call_lookahead_mask tokens_5_0) 0 1 0 = Some 0 \<and>
   entry3 (call_lookahead_mask tokens_5_0) 0 1 1 = Some 0 \<and>
   count_ones3 (call_lookahead_mask tokens_5_0) 0 = Some 1"
  using lookahead_mask_strictly_upper [of tokens_5_0 0 0 1]
    lookahead_mask_strictly_upper [of tokens_5_0 0 1 0]
    lookahead_mask_strictly_upper [of tokens_5_0 0 1 1]
  by (simp add: tokens_5_0_simps)

section \<open>Properties of the positional encoding\<close>

lemma pos_encoding_mask_value:
  "\<exists>pm. pos_encoding_mask d inputs = Inr pm \<and> rows2 pm = dim1 inputs \<and> cols2 pm = d \<and>
     (\<forall>p i. elem2 pm p i = (if even i then cos (real p * real i) else sin (real p * real i)))"
  by (auto simp add: pos_encoding_mask_def np_matmul_def range_column_def range_row_def
      bind_result_def Let_def zeros2_def assign_columns_def tmap2_def dest: odd_pos)

lemma embedded_2x2_simps:
  "dim0 embedded_2x2 = 1" "dim1 embedded_2x2 = 2" "dim2 embedded_2x2 = 2"
  "elem3 embedded_2x2 0 (Suc 0) (Suc 0) = 4" "elem3 embedded_2x2 0 0 0 = 1"
  by (simp_all add: embedded_2x2_def of_rows3_def)

text \<open>
  C3. For an input of shape (batch, length, d_model) the layer returns a tensor of the
  same shape whose entry at batch \<open>b\<close>, position \<open>p\<close> and dimension \<open>i\<close> is the input's
  entry plus \<open>cos (p * i)\<close> when \<open>i\<close> is even and \<open>sin (p * i)\<close> when \<open>i\<close> is odd. The
  angle is the plain product \<open>p * i\<close>: \<^verbatim>\<open>omega\<close> is computed and never used. (Exact real
  arithmetic stands for the float32 operations.)
\<close>

theorem positional_encoding_adds_cos_sin:
  "dim2 inputs = d \<longrightarrow>
     shape3 (PositionalEncodingLayer_call d inputs) = Some (dim0 inputs, dim1 inputs, d) \<and>
     (b < dim0 inputs \<and> p < dim1 inputs \<and> i < d \<longrightarrow>
        entry3 (PositionalEncodingLayer_call d inputs) b p i =
          Some (elem3 inputs b p i +
                (if even i then cos (real p * real i) else sin (real p * real i))))"
proof -
  obtain pm where pm: "pos_encoding_mask d inputs = Inr pm" "rows2 pm = dim1 inputs"
    "cols2 pm = d"
    "\<forall>p i. elem2 pm p i = (if even i then cos (real p * real i) else sin (real p * real i))"
    using pos_encoding_mask_value [of d inputs] by blast
  show ?thesis
    using pm
    by (auto simp add: PositionalEncodingLayer_call_def bind_result_def broadcast3_def rank3_def
        bdim_def bidx_same shape3_def entry3_def)
qed

theorem positional_encoding_adds_cos_sin_witness:
  "entry3 (PositionalEncodingLayer_call 2 embedded_2x2) 0 1 1 = Some (4 + sin 1) \<and>
   entry3 (PositionalEncodingLayer_call 2 embedded_2x2) 0 0 0 = Some 2"
  using positional_encoding_adds_cos_sin [of embedded_2x2 2 0 1 1]
    positional_encoding_adds_cos_sin [of embedded_2x2 2 0 0 0]
  by (simp add: embedded_2x2_simps)

section \<open>The decoder's lookup table\<close>

lemma Decoder_embedding_input_dim:
  "input_dim (embedding_layer (Decoder_build g e n l)) = pt_vocab_size g"
  by (simp add: Decoder_build_def)

lemma Encoder_embedding_input_dim:
  "input_dim (enc_embedding_layer (Encoder_build g e n l)) = pt_vocab_size g"
  by (simp add: Encoder_build_def)

text \<open>
  C2 asks for a decoder lookup table sized to the target vocabulary. \<^verbatim>\<open>Decoder.build\<close>
  passes \<^verbatim>\<open>input_dim = pt_vocab_size\<close>, the source vocabulary, as \<^verbatim>\<open>Encoder.build\<close>
  does, while its own softmax layer is sized by \<^verbatim>\<open>en_vocab_size\<close>. With a source
  vocabulary of 7000 and a target vocabulary of 8000 the table has 7000 rows and no row
  for the target token 7500.
\<close>

theorem Decoder_embedding_sized_by_source_vocabulary:
  "input_dim (embedding_layer (Decoder_build example_globals 20 8 None)) = 7000 \<and>
   en_vocab_size example_globals = 8000 \<and>
   softmax_layer_units (Decoder_build example_globals 20 8 None) = 8000 \<and>
   in_table (embedding_layer (Decoder_build example_globals 20 8 None)) 7500 = False"
  by (simp add: Decoder_build_def example_globals_def in_table_def)

section \<open>Properties of the attention weights\<close>

lemma sum_list_divide: "(\<Sum>x\<leftarrow>xs. f x / (c::real)) = (\<Sum>x\<leftarrow>xs. f x) / c"
  by (induction xs) (simp_all add: add_divide_distrib)

lemma sum_list_exp_pos: "xs \<noteq> [] \<Longrightarrow> 0 < (\<Sum>x\<leftarrow>xs. exp (f x :: real))"
proof (induction xs)
  case Nil
  then show ?case by simp
next
  case (Cons a xs)
  have "0 \<le> (\<Sum>x\<leftarrow>xs. exp (f x))"
    by (rule sum_list_nonneg) auto
  moreover have "0 < exp (f a)" by simp
  ultimately have "0 < exp (f a) + (\<Sum>x\<leftarrow>xs. exp (f x))"
    by linarith
  then show ?case by simp
qed

lemma sum_list_exp_shift:
  "(\<Sum>x\<leftarrow>xs. exp (f x + (c::real))) = (\<Sum>x\<leftarrow>xs. exp (f x)) * exp c"
  by (induction xs) (simp_all add: exp_add distrib_right)

lemma softmax_row_sum:
  assumes "0 < dim2 t"
  shows "(\<Sum>j\<leftarrow>[0..<dim2 t]. elem3 (softmax_axis2 t) b i j) = 1"
proof -
  have "0 < (\<Sum>k\<leftarrow>[0..<dim2 t]. exp (elem3 t b i k))"
    using assms by (intro sum_list_exp_pos) simp
  then show ?thesis
    by (simp add: softmax_axis2_def sum_list_divide)
qed

lemma softmax_shift_invariant:
  "exp (x + c) / (\<Sum>k\<leftarrow>ks. exp (f k + (c::real))) = exp x / (\<Sum>k\<leftarrow>ks. exp (f k))"
proof -
  have "(\<Sum>k\<leftarrow>ks. exp (f k + c)) = (\<Sum>k\<leftarrow>ks. exp (f k)) * exp c"
    by (rule sum_list_exp_shift)
  then show ?thesis by (simp add: exp_add)
qed

lemma head_scores_shape:
  assumes "head_scores self h q k = Inr sc"
  shows "dim1 sc = dim1 q \<and> dim2 sc = dim1 k"
  using assms
  by (auto simp add: head_scores_def bind_result_def Let_def matmul_def transpose_021_def
      Dense_call_def split: sum.splits option.splits if_splits)

lemma rescale_simps:
  "dim0 (rescale sc) = dim0 sc" "dim1 (rescale sc) = dim1 sc" "dim2 (rescale sc) = dim2 sc"
  "elem3 (rescale sc) b i j = (1 / sqrt (real (dim2 sc))) * elem3 sc b i j"
  by (simp_all add: rescale_def tmap3_def Let_def)

text \<open>
  C4. When a head's raw scores \<open>sc\<close> (queries times transposed keys) are computed, their
  trailing axis has the size of the key sequence, \<open>dim1 k\<close>; the softmax weights are
  computed from \<open>rescale sc\<close>, whose entries are the raw scores times
  \<open>1 / sqrt (length of the key sequence)\<close>. The width of the projected keys does not
  enter the factor.
\<close>

theorem scores_scaled_by_key_length:
  "head_scores self h q k = Inr sc \<longrightarrow>
     dim2 sc = dim1 k \<and>
     head_weights self h q k m =
       bind_result (apply_mask m (rescale sc)) (\<lambda>scaled_scores. Inr (softmax_axis2 scaled_scores)) \<and>
     shape3 (Inr (rescale sc)) = shape3 (Inr sc) \<and>
     elem3 (rescale sc) b i j = (1 / sqrt (real (dim1 k))) * elem3 sc b i j"
  using head_scores_shape [of self h q k sc]
  by (auto simp add: head_weights_def bind_result_def rescale_simps shape3_def)

text \<open>
  C8. Whether or not a mask is supplied, every row of a head's softmax weights sums over
  the key axis to exactly 1 in real arithmetic, at every batch index and query position
  (the key axis holding at least one position).
\<close>

theorem softmax_rows_sum_to_one:
  "head_weights self h q k m = Inr w \<and> b < dim0 w \<and> i < dim1 w \<and> 0 < dim2 w \<longrightarrow>
     (\<Sum>j\<leftarrow>[0..<dim2 w]. elem3 w b i j) = 1"
proof -
  have "(\<Sum>j\<leftarrow>[0..<dim2 w]. elem3 w b i j) = 1"
    if hw: "head_weights self h q k m = Inr w" and pos: "0 < dim2 w"
  proof -
    obtain t where t: "w = softmax_axis2 t"
      using hw
      by (auto simp add: head_weights_def bind_result_def split: sum.splits)
    then have "dim2 t = dim2 w" by (simp add: softmax_axis2_def)
    then show ?thesis using softmax_row_sum [of t b i] pos t by simp
  qed
  then show ?thesis by blast
qed


lemma head_weights_unmasked:
  "head_scores self h q k = Inr sc \<Longrightarrow>
   head_weights self h q k None = Inr (softmax_axis2 (rescale sc))"
  by (simp add: head_weights_def bind_result_def apply_mask_def)

lemma sum_list_upt_cong:
  assumes "\<And>c. c < n \<Longrightarrow> f c = (g c :: real)"
  shows "(\<Sum>c\<leftarrow>[0..<n]. f c) = (\<Sum>c\<leftarrow>[0..<n]. g c)"
proof -
  have "map f [0..<n] = map g [0..<n]"
    using assms by (intro map_cong) auto
  then show ?thesis by (rule arg_cong)
qed







lemma head_weights_masked:
  assumes "head_scores self h q k = Inr sc"
    and "dim0 m = dim0 sc" and "dim1 m = dim1 sc" and "dim2 m = dim2 sc"
  shows "\<exists>w. head_weights self h q k (Some m) = Inr w \<and>
           dim0 w = dim0 sc \<and> dim1 w = dim1 sc \<and> dim2 w = dim2 sc \<and>
           (\<forall>b i j. b < dim0 sc \<and> i < dim1 sc \<and> j < dim2 sc \<longrightarrow>
              elem3 w b i j =
                exp (float32 (elem3 (rescale sc) b i j + float32 (elem3 m b i j * (- 1000000000)))) /
                (\<Sum>c\<leftarrow>[0..<dim2 sc].
                   exp (float32 (elem3 (rescale sc) b i c +
                                 float32 (elem3 m b i c * (- 1000000000))))))"
proof -
  define t where "t = \<lparr>dim0 = dim0 sc, dim1 = dim1 sc, dim2 = dim2 sc,
       elem3 = (\<lambda>b i j. float32
        (elem3 (rescale sc) (bidx (dim0 sc) b) (bidx (dim1 sc) i) (bidx (dim2 sc) j) +
         elem3 (tmap3 (\<lambda>v. float32 (v * (- 1000000000))) m)
           (bidx (dim0 sc) b) (bidx (dim1 sc) i) (bidx (dim2 sc) j)))\<rparr>"
  have am: "apply_mask (Some m) (rescale sc) = Inr t"
    using assms(2-4)
    by (simp add: t_def apply_mask_def broadcast3_def bdim_def rescale_simps tmap3_def)
  have hw: "head_weights self h q k (Some m) = Inr (softmax_axis2 t)"
    using assms(1) am by (simp add: head_weights_def bind_result_def)
  have shape: "dim0 (softmax_axis2 t) = dim0 sc" "dim1 (softmax_axis2 t) = dim1 sc"
    "dim2 (softmax_axis2 t) = dim2 sc"
    by (simp_all add: softmax_axis2_def t_def)
  have el: "elem3 t b i c =
      float32 (elem3 (rescale sc) b i c + float32 (elem3 m b i c * (- 1000000000)))"
    if "b < dim0 sc" "i < dim1 sc" "c < dim2 sc" for b i c
    using that by (simp add: t_def bidx_same tmap3_def)
  have "elem3 (softmax_axis2 t) b i j =
          exp (float32 (elem3 (rescale sc) b i j + float32 (elem3 m b i j * (- 1000000000)))) /
          (\<Sum>c\<leftarrow>[0..<dim2 sc].
             exp (float32 (elem3 (rescale sc) b i c + float32 (elem3 m b i c * (- 1000000000)))))"
    if b: "b < dim0 sc" and i: "i < dim1 sc" and j: "j < dim2 sc" for b i j
  proof -
    have "elem3 (softmax_axis2 t) b i j =
        exp (elem3 t b i j) / (\<Sum>c\<leftarrow>[0..<dim2 sc]. exp (elem3 t b i c))"
      by (simp add: softmax_axis2_def t_def)
    also have "(\<Sum>c\<leftarrow>[0..<dim2 sc]. exp (elem3 t b i c)) =
        (\<Sum>c\<leftarrow>[0..<dim2 sc].
           exp (float32 (elem3 (rescale sc) b i c + float32 (elem3 m b i c * (- 1000000000)))))"
      by (rule sum_list_upt_cong) (simp only: el [OF b i])
    also have "elem3 t b i j =
        float32 (elem3 (rescale sc) b i j + float32 (elem3 m b i j * (- 1000000000)))"
      by (rule el [OF b i j])
    finally show ?thesis .
  qed
  then show ?thesis
    using hw shape by blast
qed





subsection \<open>The unit layer on concrete inputs\<close>

lemma unit_kernels:
  "get_kernel unit_self 0 ''query'' = Inr (Dense 1 unit_weights)"
  "get_kernel unit_self 0 ''key'' = Inr (Dense 1 unit_weights)"
  by (simp_all add: get_kernel_def unit_self_def)

lemma query_16_simps:
  "dim0 query_16 = 1" "dim1 query_16 = 1" "dim2 query_16 = 1" "elem3 query_16 0 0 0 = 16"
  by (simp_all add: query_16_def of_rows3_def)

lemma keys_simps:
  "dim0 keys_0_0_0_32 = 1" "dim1 keys_0_0_0_32 = 4" "dim2 keys_0_0_0_32 = 1"
  "elem3 keys_0_0_0_32 0 0 0 = 0" "elem3 keys_0_0_0_32 0 (Suc 0) 0 = 0"
  "elem3 keys_0_0_0_32 0 2 0 = 0" "elem3 keys_0_0_0_32 0 3 0 = 32"
  by (simp_all add: keys_0_0_0_32_def of_rows3_def eval_nat_numeral)

lemma unit_scores:
  "\<exists>sc. head_scores unit_self 0 query_16 keys_0_0_0_32 = Inr sc \<and>
     dim0 sc = 1 \<and> dim1 sc = 1 \<and> dim2 sc = 4 \<and>
     elem3 sc 0 0 0 = 0 \<and> elem3 sc 0 0 1 = 0 \<and> elem3 sc 0 0 2 = 0 \<and> elem3 sc 0 0 3 = 512"
  by (simp add: head_scores_def unit_kernels bind_result_def Let_def
      Dense_call_def Dense_def unit_weights_def matmul_def transpose_021_def bdim_def bidx_def
      query_16_simps keys_simps relu_def)

lemma mask_all_ones_simps:
  "dim0 mask_all_ones = 1" "dim1 mask_all_ones = 1" "dim2 mask_all_ones = 4"
  "elem3 mask_all_ones 0 0 0 = 1" "elem3 mask_all_ones 0 0 (Suc 0) = 1"
  "elem3 mask_all_ones 0 0 2 = 1" "elem3 mask_all_ones 0 0 3 = 1"
  by (simp_all add: mask_all_ones_def of_rows3_def eval_nat_numeral)



theorem scores_scaled_by_key_length_witness:
  "\<exists>sc. head_scores unit_self 0 query_16 keys_0_0_0_32 = Inr sc \<and>
     dim2 sc = dim1 keys_0_0_0_32 \<and> elem3 sc 0 0 3 = 512 \<and> elem3 (rescale sc) 0 0 3 = 256"
proof -
  obtain sc where sc: "head_scores unit_self 0 query_16 keys_0_0_0_32 = Inr sc"
    and v: "elem3 sc 0 0 3 = 512"
    using unit_scores by blast
  have "dim2 sc = dim1 keys_0_0_0_32 \<and>
        elem3 (rescale sc) 0 0 3 = (1 / sqrt (real (dim1 keys_0_0_0_32))) * elem3 sc 0 0 3"
    using scores_scaled_by_key_length [of unit_self 0 query_16 keys_0_0_0_32 sc None 0 0 3] sc
    by blast
  then have "dim2 sc = dim1 keys_0_0_0_32 \<and> elem3 (rescale sc) 0 0 3 = 256"
    using v by (simp add: keys_simps)
  then show ?thesis using sc v by blast
qed

theorem softmax_rows_sum_to_one_witness:
  "\<exists>w. head_weights unit_self 0 query_16 keys_0_0_0_32 (Some mask_all_ones) = Inr w \<and>
     dim0 w = 1 \<and> dim1 w = 1 \<and> dim2 w = 4 \<and> (\<Sum>j\<leftarrow>[0..<dim2 w]. elem3 w 0 0 j) = 1"
proof -
  obtain sc where sc: "head_scores unit_self 0 query_16 keys_0_0_0_32 = Inr sc"
    and d: "dim0 sc = 1" "dim1 sc = 1" "dim2 sc = 4"
    using unit_scores by blast
  obtain w where w: "head_weights unit_self 0 query_16 keys_0_0_0_32 (Some mask_all_ones) = Inr w"
    and dw: "dim0 w = dim0 sc" "dim1 w = dim1 sc" "dim2 w = dim2 sc"
    using head_weights_masked [OF sc, of mask_all_ones] d by (auto simp add: mask_all_ones_simps)
  have "(\<Sum>j\<leftarrow>[0..<dim2 w]. elem3 w 0 0 j) = 1"
    using softmax_rows_sum_to_one [of unit_self 0 query_16 keys_0_0_0_32 "Some mask_all_ones" w 0 0]
      w dw d by simp
  then show ?thesis using w dw d by auto
qed







section \<open>Properties of the attention layer\<close>

lemma get_kernel_replace:
  "kt \<noteq> ''value'' \<Longrightarrow> get_kernel (replace_value_kernels v self) h kt = get_kernel self h kt"
  by (simp add: get_kernel_def replace_value_kernels_def split: option.splits)

lemma head_weights_replace:
  "head_weights (replace_value_kernels v self) h q k m = head_weights self h q k m"
  by (simp add: head_weights_def head_scores_def get_kernel_replace)

lemma attention_head_replace:
  "attention_head (replace_value_kernels v self) h inputs m = attention_head self h inputs m"
  by (simp add: attention_head_def head_weights_replace)

lemma heads_loop_replace:
  "heads_loop (replace_value_kernels v self) inputs m hs acc = heads_loop self inputs m hs acc"
  by (induction hs arbitrary: acc) (simp_all add: attention_head_replace)

lemma replace_fields:
  "self_n_heads (replace_value_kernels v self) = self_n_heads self"
  "attention_normalization (replace_value_kernels v self) = attention_normalization self"
  "linear_output_layer (replace_value_kernels v self) = linear_output_layer self"
  "res_normalization_layer (replace_value_kernels v self) = res_normalization_layer self"
  "res_linear_layer (replace_value_kernels v self) = res_linear_layer self"
  "dropout (replace_value_kernels v self) = dropout self"
  by (simp_all add: replace_value_kernels_def)

lemma call_replace:
  "MultiHeadedAttention_call (replace_value_kernels v self) inputs m =
   MultiHeadedAttention_call self inputs m"
  by (simp add: MultiHeadedAttention_call_def attention_block_def heads_loop_replace replace_fields)

lemma head_weights_shape:
  assumes "head_weights self h q k m = Inr w"
    and "case m of None \<Rightarrow> True | Some mk \<Rightarrow> dim1 mk = dim1 q \<and> dim2 mk = dim1 k"
  shows "dim1 w = dim1 q \<and> dim2 w = dim1 k"
proof -
  obtain sc t where sc: "head_scores self h q k = Inr sc"
    and t: "apply_mask m (rescale sc) = Inr t" and w: "w = softmax_axis2 t"
    using assms(1) by (auto simp add: head_weights_def bind_result_def split: sum.splits)
  have d: "dim1 sc = dim1 q \<and> dim2 sc = dim1 k"
    using head_scores_shape [OF sc] .
  have "dim1 t = dim1 q \<and> dim2 t = dim1 k"
    using t assms(2) d
    by (auto simp add: apply_mask_def broadcast3_def bdim_def rescale_simps tmap3_def
        split: option.splits if_splits)
  then show ?thesis using w by (simp add: softmax_axis2_def)
qed

lemma attention_head_value:
  assumes "head_weights self h q k m = Inr w" and "dim0 val = dim0 w" and "dim1 val = dim2 w"
  shows "\<exists>out. attention_head self h (q, k, val) m = Inr out \<and>
           dim0 out = dim0 w \<and> dim1 out = dim1 w \<and> dim2 out = dim2 val \<and>
           (\<forall>b i j. b < dim0 w \<longrightarrow>
              elem3 out b i j = (\<Sum>c\<leftarrow>[0..<dim2 w]. elem3 w b i c * elem3 val b c j))"
  using assms
  by (simp add: attention_head_def bind_result_def matmul_def transpose_012_def bdim_def bidx_same)

lemma head_scores_projected:
  assumes "get_kernel self h ''query'' = Inr ql" and "get_kernel self h ''key'' = Inr kl"
  shows "head_scores self h q k = matmul (Dense_call ql q) (transpose_021 (Dense_call kl k))"
  using assms by (simp add: head_scores_def bind_result_def)

lemma head_weights_from_projections:
  assumes "head_weights self h q k m = Inr w"
  shows "\<exists>ql kl sc t. get_kernel self h ''query'' = Inr ql \<and> get_kernel self h ''key'' = Inr kl \<and>
           matmul (Dense_call ql q) (transpose_021 (Dense_call kl k)) = Inr sc \<and>
           apply_mask m (rescale sc) = Inr t \<and> w = softmax_axis2 t"
proof -
  obtain sc t where sc: "head_scores self h q k = Inr sc"
    and t: "apply_mask m (rescale sc) = Inr t" and w: "w = softmax_axis2 t"
    using assms by (auto simp add: head_weights_def bind_result_def split: sum.splits)
  obtain ql kl where ql: "get_kernel self h ''query'' = Inr ql"
    and kl: "get_kernel self h ''key'' = Inr kl"
    using sc by (auto simp add: head_scores_def bind_result_def split: sum.splits)
  have "matmul (Dense_call ql q) (transpose_021 (Dense_call kl k)) = Inr sc"
    using sc head_scores_projected [OF ql kl] by simp
  then show ?thesis using ql kl t w by blast
qed

lemma query_minus_16_simps:
  "dim0 query_minus_16 = 1" "dim1 query_minus_16 = 1" "dim2 query_minus_16 = 1"
  "elem3 query_minus_16 0 0 0 = - 16"
  by (simp_all add: query_minus_16_def of_rows3_def)

text \<open>
  C5. A head applies its learned dense layers to the query source and the key source
  only: the raw scores are the product of \<open>Dense_call\<close> of the query kernel on the query
  source with the transpose of \<open>Dense_call\<close> of the key kernel on the key source, and
  the softmax weights are computed from those scores. The weights multiply the value
  source as it was passed in, so for weights of shape (batch, length_q, length_kv) and a
  value source of shape (batch, length_kv, d_model) the head's output has shape
  (batch, length_q, d_model); the weights have the query and key lengths when no mask,
  or a mask of that shape, is supplied. The output of \<^verbatim>\<open>call\<close> is the same whatever
  stands under \<^verbatim>\<open>"value"\<close> in the heads' dictionaries.
\<close>

theorem value_source_is_not_projected:
  "MultiHeadedAttention_call (replace_value_kernels v self) inputs m =
     MultiHeadedAttention_call self inputs m \<and>
   (get_kernel self h ''query'' = Inr ql \<and> get_kernel self h ''key'' = Inr kl \<longrightarrow>
      head_scores self h q k = matmul (Dense_call ql q) (transpose_021 (Dense_call kl k))) \<and>
   (head_weights self h q k m = Inr w \<longrightarrow>
      (\<exists>ql kl sc t. get_kernel self h ''query'' = Inr ql \<and> get_kernel self h ''key'' = Inr kl \<and>
         matmul (Dense_call ql q) (transpose_021 (Dense_call kl k)) = Inr sc \<and>
         apply_mask m (rescale sc) = Inr t \<and> w = softmax_axis2 t)) \<and>
   (head_weights self h q k m = Inr w \<and> dim0 val = dim0 w \<and> dim1 val = dim2 w \<longrightarrow>
      shape3 (attention_head self h (q, k, val) m) = Some (dim0 w, dim1 w, dim2 val) \<and>
      (b < dim0 w \<and> i < dim1 w \<and> j < dim2 val \<longrightarrow>
         entry3 (attention_head self h (q, k, val) m) b i j =
           Some (\<Sum>c\<leftarrow>[0..<dim2 w]. elem3 w b i c * elem3 val b c j))) \<and>
   (head_weights self h q k m = Inr w \<and>
      (case m of None \<Rightarrow> True | Some mk \<Rightarrow> dim1 mk = dim1 q \<and> dim2 mk = dim1 k) \<longrightarrow>
      dim1 w = dim1 q \<and> dim2 w = dim1 k)"
proof (intro conjI impI)
  show "MultiHeadedAttention_call (replace_value_kernels v self) inputs m =
     MultiHeadedAttention_call self inputs m"
    by (rule call_replace)
next
  assume "get_kernel self h ''query'' = Inr ql \<and> get_kernel self h ''key'' = Inr kl"
  then show "head_scores self h q k = matmul (Dense_call ql q) (transpose_021 (Dense_call kl k))"
    using head_scores_projected by blast
next
  assume "head_weights self h q k m = Inr w"
  then show "\<exists>ql kl sc t. get_kernel self h ''query'' = Inr ql \<and>
         get_kernel self h ''key'' = Inr kl \<and>
         matmul (Dense_call ql q) (transpose_021 (Dense_call kl k)) = Inr sc \<and>
         apply_mask m (rescale sc) = Inr t \<and> w = softmax_axis2 t"
    by (rule head_weights_from_projections)
next
  assume a: "head_weights self h q k m = Inr w \<and> dim0 val = dim0 w \<and> dim1 val = dim2 w"
  then obtain out where out: "attention_head self h (q, k, val) m = Inr out"
    "dim0 out = dim0 w" "dim1 out = dim1 w" "dim2 out = dim2 val"
    "\<forall>b i j. b < dim0 w \<longrightarrow>
       elem3 out b i j = (\<Sum>c\<leftarrow>[0..<dim2 w]. elem3 w b i c * elem3 val b c j)"
    using attention_head_value [of self h q k m w val] by blast
  show "shape3 (attention_head self h (q, k, val) m) = Some (dim0 w, dim1 w, dim2 val)"
    using out(1-4) by (simp add: shape3_def)
  show "entry3 (attention_head self h (q, k, val) m) b i j =
           Some (\<Sum>c\<leftarrow>[0..<dim2 w]. elem3 w b i c * elem3 val b c j)"
    if "b < dim0 w \<and> i < dim1 w \<and> j < dim2 val"
    using that out by (simp add: entry3_def)
next
  assume "head_weights self h q k m = Inr w \<and>
      (case m of None \<Rightarrow> True | Some mk \<Rightarrow> dim1 mk = dim1 q \<and> dim2 mk = dim1 k)"
  then show "dim1 w = dim1 q" "dim2 w = dim1 k"
    using head_weights_shape [of self h q k m w] by blast+
qed

text \<open>
  On the unit layer the query feature -16 is projected to \<open>relu (-16) = 0\<close>, so the raw
  score against the key feature 32 is 0; the unprojected product would be -512.
\<close>

theorem value_source_is_not_projected_witness:
  "MultiHeadedAttention_call (replace_value_kernels (\<lambda>h. None) unit_self)
       (query_16, keys_0_0_0_32, keys_0_0_0_32) None =
     MultiHeadedAttention_call unit_self (query_16, keys_0_0_0_32, keys_0_0_0_32) None \<and>
   shape3 (attention_head unit_self 0 (query_16, keys_0_0_0_32, keys_0_0_0_32) None) =
     Some (1, 1, 1) \<and>
   entry3 (head_scores unit_self 0 query_minus_16 keys_0_0_0_32) 0 0 3 = Some 0 \<and>
   elem3 query_minus_16 0 0 0 * elem3 keys_0_0_0_32 0 3 0 = - 512"
proof -
  obtain sc where sc: "head_scores unit_self 0 query_16 keys_0_0_0_32 = Inr sc"
    and d: "dim0 sc = 1" "dim1 sc = 1" "dim2 sc = 4"
    using unit_scores by blast
  define w where "w = softmax_axis2 (rescale sc)"
  have w: "head_weights unit_self 0 query_16 keys_0_0_0_32 None = Inr w"
    unfolding w_def by (rule head_weights_unmasked [OF sc])
  have dw: "dim0 w = 1" "dim1 w = 1" "dim2 w = 4"
    using d by (simp_all add: w_def softmax_axis2_def rescale_simps)
  have h: "head_weights unit_self 0 query_16 keys_0_0_0_32 None = Inr w \<and>
      dim0 keys_0_0_0_32 = dim0 w \<and> dim1 keys_0_0_0_32 = dim2 w"
    using w dw by (simp add: keys_simps)
  note t = value_source_is_not_projected
      [of "\<lambda>h. None" unit_self "(query_16, keys_0_0_0_32, keys_0_0_0_32)" None 0 _ _ query_16
        keys_0_0_0_32 w keys_0_0_0_32 0 0 0]
  have "shape3 (attention_head unit_self 0 (query_16, keys_0_0_0_32, keys_0_0_0_32) None) =
      Some (dim0 w, dim1 w, dim2 keys_0_0_0_32)"
    using t h by blast
  then have shape: "shape3 (attention_head unit_self 0 (query_16, keys_0_0_0_32, keys_0_0_0_32) None) =
      Some (1, 1, 1)"
    by (simp add: dw keys_simps)
  have same: "MultiHeadedAttention_call (replace_value_kernels (\<lambda>h. None) unit_self)
       (query_16, keys_0_0_0_32, keys_0_0_0_32) None =
     MultiHeadedAttention_call unit_self (query_16, keys_0_0_0_32, keys_0_0_0_32) None"
    using t by blast
  have "head_scores unit_self 0 query_minus_16 keys_0_0_0_32 =
      matmul (Dense_call (Dense 1 unit_weights) query_minus_16)
        (transpose_021 (Dense_call (Dense 1 unit_weights) keys_0_0_0_32))"
    using value_source_is_not_projected
      [of "\<lambda>h. None" unit_self "(query_16, keys_0_0_0_32, keys_0_0_0_32)" None 0
        "Dense 1 unit_weights" "Dense 1 unit_weights" query_minus_16 keys_0_0_0_32]
      unit_kernels
    by blast
  then have score: "entry3 (head_scores unit_self 0 query_minus_16 keys_0_0_0_32) 0 0 3 = Some 0"
    by (simp add: entry3_def Dense_call_def Dense_def unit_weights_def matmul_def
        transpose_021_def bdim_def bidx_def query_minus_16_simps keys_simps relu_def)
  have "elem3 query_minus_16 0 0 0 * elem3 keys_0_0_0_32 0 3 0 = - 512"
    by (simp add: query_minus_16_simps keys_simps)
  then show ?thesis using shape same score by blast
qed

lemma broadcast3_same_shape:
  assumes "dim0 y = dim0 x" and "dim1 y = dim1 x" and "dim2 y = dim2 x"
    and "broadcast3 f x y = Inr r"
  shows "dim0 r = dim0 x \<and> dim1 r = dim1 x \<and> dim2 r = dim2 x \<and>
         (\<forall>b i j. b < dim0 x \<and> i < dim1 x \<and> j < dim2 x \<longrightarrow>
            elem3 r b i j = f (elem3 x b i j) (elem3 y b i j))"
  using assms by (auto simp add: broadcast3_def bdim_def bidx_same)

text \<open>
  C6. When \<^verbatim>\<open>call\<close> returns \<open>out\<close>, the heads' outputs were concatenated, normalized,
  passed through the dense output layer and dropout, giving \<open>lv\<close>; \<open>lv\<close> was added to
  the query source \<open>q\<close> itself (entry by entry when the shapes agree), and the sum went
  through the second dense layer and then the second normalization to give \<open>out\<close>.
\<close>

theorem residual_adds_query_source:
  "MultiHeadedAttention_call self (q, k, val) m = Inr out \<longrightarrow>
     (\<exists>all_values cat lv res.
        heads_loop self (q, k, val) m (range_py (self_n_heads self)) [] = Inr all_values \<and>
        concat_axis2 all_values = Inr cat \<and>
        lv = dropout self (Dense_call (linear_output_layer self) (attention_normalization self cat)) \<and>
        attention_block self (q, k, val) m = Inr lv \<and>
        broadcast3 (+) q lv = Inr res \<and>
        out = res_normalization_layer self (Dense_call (res_linear_layer self) res) \<and>
        (dim0 lv = dim0 q \<and> dim1 lv = dim1 q \<and> dim2 lv = dim2 q \<longrightarrow>
           dim0 res = dim0 q \<and> dim1 res = dim1 q \<and> dim2 res = dim2 q \<and>
           (\<forall>b i j. b < dim0 q \<and> i < dim1 q \<and> j < dim2 q \<longrightarrow>
              elem3 res b i j = elem3 q b i j + elem3 lv b i j)))"
proof
  assume call: "MultiHeadedAttention_call self (q, k, val) m = Inr out"
  then obtain lv res where lv: "attention_block self (q, k, val) m = Inr lv"
    and res: "broadcast3 (+) q lv = Inr res"
    and out: "out = res_normalization_layer self (Dense_call (res_linear_layer self) res)"
    by (auto simp add: MultiHeadedAttention_call_def bind_result_def Let_def split: sum.splits)
  from lv obtain all_values cat where
    av: "heads_loop self (q, k, val) m (range_py (self_n_heads self)) [] = Inr all_values"
    and cat: "concat_axis2 all_values = Inr cat"
    and lv_eq: "lv = dropout self (Dense_call (linear_output_layer self)
                       (attention_normalization self cat))"
    by (auto simp add: attention_block_def bind_result_def Let_def split: sum.splits)
  have "dim0 res = dim0 q \<and> dim1 res = dim1 q \<and> dim2 res = dim2 q \<and>
        (\<forall>b i j. b < dim0 q \<and> i < dim1 q \<and> j < dim2 q \<longrightarrow>
           elem3 res b i j = elem3 q b i j + elem3 lv b i j)"
    if "dim0 lv = dim0 q \<and> dim1 lv = dim1 q \<and> dim2 lv = dim2 q"
    using broadcast3_same_shape [of lv q "(+)" res] that res by blast
  then show "\<exists>all_values cat lv res.
        heads_loop self (q, k, val) m (range_py (self_n_heads self)) [] = Inr all_values \<and>
        concat_axis2 all_values = Inr cat \<and>
        lv = dropout self (Dense_call (linear_output_layer self) (attention_normalization self cat)) \<and>
        attention_block self (q, k, val) m = Inr lv \<and>
        broadcast3 (+) q lv = Inr res \<and>
        out = res_normalization_layer self (Dense_call (res_linear_layer self) res) \<and>
        (dim0 lv = dim0 q \<and> dim1 lv = dim1 q \<and> dim2 lv = dim2 q \<longrightarrow>
           dim0 res = dim0 q \<and> dim1 res = dim1 q \<and> dim2 res = dim2 q \<and>
           (\<forall>b i j. b < dim0 q \<and> i < dim1 q \<and> j < dim2 q \<longrightarrow>
              elem3 res b i j = elem3 q b i j + elem3 lv b i j))"
    using av cat lv_eq lv res out by blast
qed

lemma unit_self_scores:
  "\<exists>sc. head_scores unit_self 0 query_16 query_16 = Inr sc \<and>
     dim0 sc = 1 \<and> dim1 sc = 1 \<and> dim2 sc = 1"
  by (simp add: head_scores_def unit_kernels bind_result_def Let_def
      Dense_call_def Dense_def matmul_def transpose_021_def bdim_def query_16_simps)

lemma unit_self_head:
  "\<exists>out. attention_head unit_self 0 (query_16, query_16, query_16) None = Inr out \<and>
     dim0 out = 1 \<and> dim1 out = 1 \<and> dim2 out = 1 \<and> elem3 out 0 0 0 = 16"
proof -
  obtain sc where sc: "head_scores unit_self 0 query_16 query_16 = Inr sc"
    and d: "dim0 sc = 1" "dim1 sc = 1" "dim2 sc = 1"
    using unit_self_scores by blast
  define w where "w = softmax_axis2 (rescale sc)"
  have w: "head_weights unit_self 0 query_16 query_16 None = Inr w"
    unfolding w_def by (rule head_weights_unmasked [OF sc])
  have dw: "dim0 w = 1" "dim1 w = 1" "dim2 w = 1" "elem3 w 0 0 0 = 1"
    using d by (simp_all add: w_def softmax_axis2_def rescale_simps)
  obtain out where out: "attention_head unit_self 0 (query_16, query_16, query_16) None = Inr out"
    "dim0 out = dim0 w" "dim1 out = dim1 w" "dim2 out = dim2 query_16"
    "\<forall>b i j. b < dim0 w \<longrightarrow>
       elem3 out b i j = (\<Sum>c\<leftarrow>[0..<dim2 w]. elem3 w b i c * elem3 query_16 b c j)"
    using attention_head_value [OF w, of query_16] dw by (auto simp add: query_16_simps)
  have "elem3 out 0 0 0 = 16"
    using out(5) dw by (simp add: query_16_simps)
  then show ?thesis using out(1-4) dw by (simp add: query_16_simps)
qed

lemma unit_self_block:
  "\<exists>lv. attention_block unit_self (query_16, query_16, query_16) None = Inr lv \<and>
     dim0 lv = 1 \<and> dim1 lv = 1 \<and> dim2 lv = 1 \<and> elem3 lv 0 0 0 = 16"
proof -
  obtain h where h: "attention_head unit_self 0 (query_16, query_16, query_16) None = Inr h"
    and d: "dim0 h = 1" "dim1 h = 1" "dim2 h = 1" "elem3 h 0 0 0 = 16"
    using unit_self_head by blast
  have r: "range_py (self_n_heads unit_self) = [0]"
    by (simp add: range_py_def unit_self_def)
  have "attention_block unit_self (query_16, query_16, query_16) None =
      Inr (dropout unit_self (Dense_call (linear_output_layer unit_self)
             (attention_normalization unit_self h)))"
    by (simp add: attention_block_def r h bind_result_def)
  then show ?thesis
    using d by (simp add: unit_self_def Dense_call_def Dense_def unit_weights_def relu_def)
qed

lemma unit_self_call:
  "\<exists>out. MultiHeadedAttention_call unit_self (query_16, query_16, query_16) None = Inr out"
proof -
  obtain lv where lv: "attention_block unit_self (query_16, query_16, query_16) None = Inr lv"
    and d: "dim0 lv = 1" "dim1 lv = 1" "dim2 lv = 1"
    using unit_self_block by blast
  show ?thesis
    using d by (simp add: MultiHeadedAttention_call_def lv bind_result_def broadcast3_def bdim_def
        query_16_simps)
qed

theorem residual_adds_query_source_witness:
  "\<exists>lv res. attention_block unit_self (query_16, query_16, query_16) None = Inr lv \<and>
     broadcast3 (+) query_16 lv = Inr res \<and> elem3 lv 0 0 0 = 16 \<and> elem3 res 0 0 0 = 32"
proof -
  obtain out where out: "MultiHeadedAttention_call unit_self (query_16, query_16, query_16) None = Inr out"
    using unit_self_call by blast
  obtain lv0 where lv0: "attention_block unit_self (query_16, query_16, query_16) None = Inr lv0"
    and d: "dim0 lv0 = 1" "dim1 lv0 = 1" "dim2 lv0 = 1" "elem3 lv0 0 0 0 = 16"
    using unit_self_block by blast
  obtain lv res where lv: "attention_block unit_self (query_16, query_16, query_16) None = Inr lv"
    and res: "broadcast3 (+) query_16 lv = Inr res"
    and el: "dim0 lv = dim0 query_16 \<and> dim1 lv = dim1 query_16 \<and> dim2 lv = dim2 query_16 \<longrightarrow>
           dim0 res = dim0 query_16 \<and> dim1 res = dim1 query_16 \<and> dim2 res = dim2 query_16 \<and>
           (\<forall>b i j. b < dim0 query_16 \<and> i < dim1 query_16 \<and> j < dim2 query_16 \<longrightarrow>
              elem3 res b i j = elem3 query_16 b i j + elem3 lv b i j)"
    using residual_adds_query_source [of unit_self query_16 query_16 query_16 None out] out
    by blast
  have same: "lv = lv0" using lv lv0 by simp
  have "elem3 res 0 0 0 = elem3 query_16 0 0 0 + elem3 lv 0 0 0"
    using el d same by (simp add: query_16_simps)
  then have "elem3 res 0 0 0 = 32"
    using d same by (simp add: query_16_simps)
  then show ?thesis using lv res d same by blast
qed

subsection \<open>Kernels built and kernels looked up\<close>

lemma set_kernel_dom:
  assumes "set_kernel ks h kt l = Inr ks'"
  shows "dom ks' = dom ks"
proof -
  obtain d where d: "ks h = Some d" and ks': "ks' = ks(h \<mapsto> d(kt \<mapsto> l))"
    using assms by (auto simp add: set_kernel_def split: option.splits)
  have "h \<in> dom ks" using d by blast
  then show ?thesis unfolding ks' by (simp add: insert_absorb)
qed

lemma build_kernels_dom:
  "build_kernels d s ks l = Inr ks' \<Longrightarrow> dom ks' = dom ks"
proof (induction l arbitrary: ks)
  case Nil
  then show ?case by simp
next
  case (Cons p rest)
  obtain h kt where p: "p = (h, kt)" by (cases p)
  from Cons.prems obtain ks1 where
    s1: "set_kernel ks h kt (Dense d (kernel_weights s h kt)) = Inr ks1"
    and r: "build_kernels d s ks1 rest = Inr ks'"
    by (auto simp add: p bind_result_def split: sum.splits)
  show ?case
    using Cons.IH [OF r] set_kernel_dom [OF s1] by simp
qed

lemma set_kernel_has:
  assumes "set_kernel ks h kt l = Inr ks'"
  shows "has_kernel ks' h kt" and "has_kernel ks h' kt' \<Longrightarrow> has_kernel ks' h' kt'"
  using assms by (auto simp add: set_kernel_def has_kernel_def split: option.splits if_splits)

lemma build_kernels_has:
  assumes "build_kernels d s ks l = Inr ks'"
  shows "(\<forall>p\<in>set l. has_kernel ks' (fst p) (snd p)) \<and>
         (\<forall>h kt. has_kernel ks h kt \<longrightarrow> has_kernel ks' h kt)"
  using assms
proof (induction l arbitrary: ks)
  case Nil
  then show ?case by simp
next
  case (Cons p rest)
  obtain h kt where p: "p = (h, kt)" by (cases p)
  from Cons.prems obtain ks1 where
    s1: "set_kernel ks h kt (Dense d (kernel_weights s h kt)) = Inr ks1"
    and r: "build_kernels d s ks1 rest = Inr ks'"
    by (auto simp add: p bind_result_def split: sum.splits)
  have ih: "(\<forall>p\<in>set rest. has_kernel ks' (fst p) (snd p)) \<and>
         (\<forall>h kt. has_kernel ks1 h kt \<longrightarrow> has_kernel ks' h kt)"
    by (rule Cons.IH [OF r])
  have "has_kernel ks' h kt"
    using ih set_kernel_has(1) [OF s1] by blast
  moreover have "has_kernel ks' h' kt'" if "has_kernel ks h' kt'" for h' kt'
    using ih set_kernel_has(2) [OF s1 that] by blast
  ultimately show ?case using ih p by auto
qed

lemma build_kernels_succeeds:
  "\<forall>p\<in>set l. fst p \<in> dom ks \<Longrightarrow> \<exists>ks'. build_kernels d s ks l = Inr ks'"
proof (induction l arbitrary: ks)
  case Nil
  then show ?case by simp
next
  case (Cons p rest)
  obtain h kt where p: "p = (h, kt)" by (cases p)
  have "h \<in> dom ks" using Cons.prems p by simp
  then obtain ks1 where s1: "set_kernel ks h kt (Dense d (kernel_weights s h kt)) = Inr ks1"
    by (auto simp add: set_kernel_def)
  have "\<forall>p\<in>set rest. fst p \<in> dom ks1"
    using Cons.prems set_kernel_dom [OF s1] by simp
  then obtain ks' where "build_kernels d s ks1 rest = Inr ks'"
    using Cons.IH by blast
  then show ?case using s1 by (simp add: p bind_result_def)
qed

lemma dom_kernels0:
  "dom (map_of (map (\<lambda>head_ind. (head_ind, Map.empty :: string \<rightharpoonup> dense_layer)) hs)) = set hs"
  by (simp add: dom_map_of_conv_image_fst image_comp comp_def)

lemma MultiHeadedAttention_build_value:
  "\<exists>self. MultiHeadedAttention_build g s cfg = Inr self \<and>
     self_n_heads self = cfg_n_heads cfg \<and>
     dom (kernels self) = set (range_py g) \<and>
     (\<forall>h\<in>set (range_py g). \<forall>kt\<in>set kernel_types. has_kernel (kernels self) h kt)"
proof -
  let ?k0 = "map_of (map (\<lambda>head_ind. (head_ind, Map.empty :: string \<rightharpoonup> dense_layer)) (range_py g))"
  let ?l = "List.product (range_py g) kernel_types"
  have "\<forall>p\<in>set ?l. fst p \<in> dom ?k0"
    by (auto simp add: dom_kernels0)
  then obtain ks where ks: "build_kernels (cfg_d_model cfg) s ?k0 ?l = Inr ks"
    using build_kernels_succeeds by blast
  have d: "dom ks = set (range_py g)"
    using build_kernels_dom [OF ks] by (simp add: dom_kernels0)
  have "\<forall>p\<in>set ?l. has_kernel ks (fst p) (snd p)"
    using build_kernels_has [OF ks] by blast
  then have h: "\<forall>h\<in>set (range_py g). \<forall>kt\<in>set kernel_types. has_kernel ks h kt"
    by auto
  show ?thesis
    using ks d h by (simp add: MultiHeadedAttention_build_def bind_result_def Let_def)
qed

lemma heads_loop_Inr:
  "heads_loop self inputs m hs acc = Inr vs \<Longrightarrow>
     length vs = length acc + length hs \<and>
     (\<forall>h\<in>set hs. \<exists>v. attention_head self h inputs m = Inr v)"
proof (induction hs arbitrary: acc)
  case Nil
  then show ?case by simp
next
  case (Cons h hs)
  from Cons.prems obtain v where v: "attention_head self h inputs m = Inr v"
    and r: "heads_loop self inputs m hs (acc @ [v]) = Inr vs"
    by (auto simp add: bind_result_def split: sum.splits)
  show ?case using Cons.IH [OF r] v by auto
qed

lemma attention_head_Inr_kernel:
  "attention_head self h inputs m = Inr v \<Longrightarrow> h \<in> dom (kernels self)"
  by (auto simp add: attention_head_def head_weights_def head_scores_def get_kernel_def
      bind_result_def split: sum.splits option.splits prod.splits)

lemma matmul_not_KeyError: "matmul x y \<noteq> Inl KeyError"
  by (simp add: matmul_def split: option.splits)

lemma broadcast3_not_KeyError: "broadcast3 f x y \<noteq> Inl KeyError"
  by (simp add: broadcast3_def split: option.splits prod.splits)

lemma concat_axis2_not_KeyError: "concat_axis2 ts \<noteq> Inl KeyError"
  by (induction ts rule: concat_axis2.induct) (auto simp add: bind_result_def split: sum.splits)

lemma get_kernel_has:
  "has_kernel (kernels self) h kt \<Longrightarrow> \<exists>l. get_kernel self h kt = Inr l"
  by (auto simp add: has_kernel_def get_kernel_def split: option.splits)

lemma attention_head_not_KeyError:
  assumes "has_kernel (kernels self) h ''query''" and "has_kernel (kernels self) h ''key''"
  shows "attention_head self h inputs m \<noteq> Inl KeyError"
proof -
  obtain q k val where i: "inputs = (q, k, val)" by (cases inputs)
  obtain ql kl where ql: "get_kernel self h ''query'' = Inr ql"
    and kl: "get_kernel self h ''key'' = Inr kl"
    using assms get_kernel_has by blast
  have sc: "head_scores self h q k \<noteq> Inl KeyError"
    by (simp add: head_scores_def ql kl bind_result_def matmul_not_KeyError)
  have am: "apply_mask m t \<noteq> Inl KeyError" for t
    by (simp add: apply_mask_def broadcast3_not_KeyError split: option.splits)
  have hw: "head_weights self h q k m \<noteq> Inl KeyError"
    using sc am by (auto simp add: head_weights_def bind_result_def split: sum.splits)
  show ?thesis
    using hw by (auto simp add: i attention_head_def bind_result_def matmul_not_KeyError
        split: sum.splits)
qed

lemma heads_loop_not_KeyError:
  "\<forall>h\<in>set hs. attention_head self h inputs m \<noteq> Inl KeyError \<Longrightarrow>
   heads_loop self inputs m hs acc \<noteq> Inl KeyError"
  by (induction hs arbitrary: acc) (auto simp add: bind_result_def split: sum.splits)

lemma call_not_KeyError:
  assumes "\<forall>h\<in>set (range_py (self_n_heads self)). attention_head self h inputs m \<noteq> Inl KeyError"
  shows "MultiHeadedAttention_call self inputs m \<noteq> Inl KeyError"
proof -
  obtain q k val where i: "inputs = (q, k, val)" by (cases inputs)
  have hl: "heads_loop self inputs m (range_py (self_n_heads self)) [] \<noteq> Inl KeyError"
    using assms by (rule heads_loop_not_KeyError)
  have ab: "attention_block self inputs m \<noteq> Inl KeyError"
    using hl concat_axis2_not_KeyError
    by (auto simp add: attention_block_def bind_result_def Let_def split: sum.splits)
  show ?thesis
    using ab broadcast3_not_KeyError
    by (auto simp add: i MultiHeadedAttention_call_def bind_result_def Let_def split: sum.splits)
qed

lemma range_py_mem: "h \<in> set (range_py n) \<longleftrightarrow> 0 \<le> h \<and> h < n"
proof
  assume "h \<in> set (range_py n)"
  then obtain k where "k < nat n" "h = int k" by (auto simp add: range_py_def)
  then show "0 \<le> h \<and> h < n" by auto
next
  assume a: "0 \<le> h \<and> h < n"
  then have "nat h < nat n" "h = int (nat h)" by auto
  then show "h \<in> set (range_py n)" unfolding range_py_def
    by (metis atLeastLessThan_iff image_eqI le0 set_map set_upt)
qed

lemma call_Inr_heads:
  assumes "MultiHeadedAttention_call self inputs m = Inr out"
  shows "0 < self_n_heads self \<and> (\<forall>h\<in>set (range_py (self_n_heads self)). h \<in> dom (kernels self))"
proof -
  obtain q k val where i: "inputs = (q, k, val)" by (cases inputs)
  from assms obtain lv where "attention_block self inputs m = Inr lv"
    by (auto simp add: i MultiHeadedAttention_call_def bind_result_def split: sum.splits)
  then obtain vs cat where
    vs: "heads_loop self inputs m (range_py (self_n_heads self)) [] = Inr vs"
    and cat: "concat_axis2 vs = Inr cat"
    by (auto simp add: attention_block_def bind_result_def Let_def split: sum.splits)
  have l: "length vs = length (range_py (self_n_heads self))"
    and hs: "\<forall>h\<in>set (range_py (self_n_heads self)). \<exists>v. attention_head self h inputs m = Inr v"
    using heads_loop_Inr [OF vs] by auto
  have "vs \<noteq> []" using cat by auto
  then have "0 < length vs" by simp
  then have "0 < nat (self_n_heads self)"
    using l by (simp add: range_py_def)
  then have "0 < self_n_heads self" by simp
  moreover have "\<forall>h\<in>set (range_py (self_n_heads self)). h \<in> dom (kernels self)"
    using hs attention_head_Inr_kernel by blast
  ultimately show ?thesis by blast
qed

lemma heads_loop_KeyError:
  assumes "\<forall>h\<in>set xs. \<exists>v. attention_head self h inputs m = Inr v"
    and "attention_head self y inputs m = Inl KeyError"
  shows "heads_loop self inputs m (xs @ y # ys) acc = Inl KeyError"
  using assms
proof (induction xs arbitrary: acc)
  case Nil
  then show ?case by (simp add: bind_result_def)
next
  case (Cons x xs)
  then obtain v where v: "attention_head self x inputs m = Inr v" by auto
  have "heads_loop self inputs m (xs @ y # ys) (acc @ [v]) = Inl KeyError"
    using Cons by simp
  then show ?case by (simp add: v bind_result_def)
qed

lemma range_py_split:
  assumes "0 \<le> g" and "g < n"
  shows "\<exists>rest. range_py n = range_py g @ g # rest"
proof -
  have "nat g < nat n" using assms by simp
  then have "[0..<nat n] = [0..<nat g] @ nat g # [Suc (nat g)..<nat n]"
    by (metis le0 upt_add_eq_append upt_conv_Cons le_add_diff_inverse less_imp_le_nat)
  then have "range_py n = range_py g @ int (nat g) # map int [Suc (nat g)..<nat n]"
    by (simp add: range_py_def)
  then show ?thesis using assms(1) by simp
qed

lemma attention_head_missing:
  "kernels self h = None \<Longrightarrow> attention_head self h inputs m = Inl KeyError"
  by (cases inputs)
    (simp add: attention_head_def head_weights_def head_scores_def get_kernel_def bind_result_def)

lemma call_missing_kernel:
  assumes "0 \<le> g" and "g < self_n_heads self" and "kernels self g = None"
    and "\<forall>h\<in>set (range_py g). \<exists>v. attention_head self h inputs m = Inr v"
  shows "MultiHeadedAttention_call self inputs m = Inl KeyError"
proof -
  obtain rest where r: "range_py (self_n_heads self) = range_py g @ g # rest"
    using range_py_split [OF assms(1,2)] by blast
  have "heads_loop self inputs m (range_py (self_n_heads self)) [] = Inl KeyError"
    unfolding r using assms(4) attention_head_missing [OF assms(3)]
    by (rule heads_loop_KeyError)
  then show ?thesis
    by (cases inputs)
      (simp add: MultiHeadedAttention_call_def attention_block_def bind_result_def)
qed

text \<open>
  C9. \<^verbatim>\<open>build\<close> fills the kernel dictionary for the head indices below the global
  \<^verbatim>\<open>n_heads\<close> (here \<open>g\<close>), \<^verbatim>\<open>call\<close> looks up the indices below \<^verbatim>\<open>self.n_heads\<close>.
  A first forward pass that returns a tensor has \<^verbatim>\<open>self.n_heads \<le> n_heads\<close>; when
  \<^verbatim>\<open>self.n_heads \<le> n_heads\<close> the pass never fails with a missing kernel; and when
  \<^verbatim>\<open>self.n_heads > n_heads \<ge> 0\<close> and the heads below \<^verbatim>\<open>n_heads\<close> compute, the pass
  fails with the missing kernel of head \<^verbatim>\<open>n_heads\<close>.
\<close>

theorem forward_needs_global_head_count:
  "(MultiHeadedAttention_forward g s cfg inputs m = Inr out \<longrightarrow> cfg_n_heads cfg \<le> g) \<and>
   (cfg_n_heads cfg \<le> g \<longrightarrow> MultiHeadedAttention_forward g s cfg inputs m \<noteq> Inl KeyError) \<and>
   (MultiHeadedAttention_build g s cfg = Inr self \<and> 0 \<le> g \<and> g < cfg_n_heads cfg \<and>
      (\<forall>h\<in>set (range_py g). \<exists>v. attention_head self h inputs m = Inr v) \<longrightarrow>
      MultiHeadedAttention_forward g s cfg inputs m = Inl KeyError)"
proof -
  obtain self' where b: "MultiHeadedAttention_build g s cfg = Inr self'"
    and n: "self_n_heads self' = cfg_n_heads cfg"
    and d: "dom (kernels self') = set (range_py g)"
    and k: "\<forall>h\<in>set (range_py g). \<forall>kt\<in>set kernel_types. has_kernel (kernels self') h kt"
    using MultiHeadedAttention_build_value [of g s cfg] by blast
  have fw: "MultiHeadedAttention_forward g s cfg inputs m = MultiHeadedAttention_call self' inputs m"
    by (simp add: MultiHeadedAttention_forward_def b bind_result_def)
  have one: "cfg_n_heads cfg \<le> g" if "MultiHeadedAttention_forward g s cfg inputs m = Inr out"
  proof -
    have c: "MultiHeadedAttention_call self' inputs m = Inr out"
      using that fw by simp
    have pos: "0 < cfg_n_heads cfg"
      and all: "\<forall>h\<in>set (range_py (cfg_n_heads cfg)). h \<in> set (range_py g)"
      using call_Inr_heads [OF c] n d by auto
    have "cfg_n_heads cfg - 1 \<in> set (range_py (cfg_n_heads cfg))"
      using pos by (simp add: range_py_mem)
    then have "cfg_n_heads cfg - 1 \<in> set (range_py g)"
      using all by blast
    then show ?thesis by (simp add: range_py_mem)
  qed
  have two: "MultiHeadedAttention_forward g s cfg inputs m \<noteq> Inl KeyError"
    if le: "cfg_n_heads cfg \<le> g"
  proof -
    have "attention_head self' h inputs m \<noteq> Inl KeyError"
      if "h \<in> set (range_py (self_n_heads self'))" for h
    proof -
      have "h \<in> set (range_py g)"
        using that le n by (simp add: range_py_mem)
      then have "has_kernel (kernels self') h ''query''" "has_kernel (kernels self') h ''key''"
        using k by (simp_all add: kernel_types_def)
      then show ?thesis by (rule attention_head_not_KeyError)
    qed
    then show ?thesis
      using call_not_KeyError [of self' inputs m] fw by simp
  qed
  have three: "MultiHeadedAttention_forward g s cfg inputs m = Inl KeyError"
    if a: "MultiHeadedAttention_build g s cfg = Inr self \<and> 0 \<le> g \<and> g < cfg_n_heads cfg \<and>
      (\<forall>h\<in>set (range_py g). \<exists>v. attention_head self h inputs m = Inr v)"
  proof -
    have same: "self = self'" using a b by simp
    have "g \<notin> set (range_py g)" by (simp add: range_py_mem)
    then have none: "kernels self' g = None" using d by blast
    show ?thesis
      unfolding fw using a n none same by (intro call_missing_kernel [of g]) auto
  qed
  show ?thesis using one two three by blast
qed

lemma attention_head_n_heads_update:
  "attention_head (self\<lparr>self_n_heads := n\<rparr>) h inputs m = attention_head self h inputs m"
  by (simp add: attention_head_def head_weights_def head_scores_def get_kernel_def)

lemma unit_build:
  "MultiHeadedAttention_build 1 unit_supply \<lparr>cfg_n_heads = n, cfg_d_model = 1\<rparr> =
     Inr (unit_self\<lparr>self_n_heads := n\<rparr>)"
  by (simp add: MultiHeadedAttention_build_def range_py_def kernel_types_def set_kernel_def
      bind_result_def unit_supply_def unit_self_def Let_def)

lemma unit_forward:
  "MultiHeadedAttention_forward 1 unit_supply \<lparr>cfg_n_heads = n, cfg_d_model = 1\<rparr> inputs m =
     MultiHeadedAttention_call (unit_self\<lparr>self_n_heads := n\<rparr>) inputs m"
  by (simp only: MultiHeadedAttention_forward_def unit_build bind_result_def sum.case)

lemma unit_forward_one:
  "\<exists>out. MultiHeadedAttention_forward 1 unit_supply \<lparr>cfg_n_heads = 1, cfg_d_model = 1\<rparr>
      (query_16, query_16, query_16) None = Inr out"
proof -
  have "unit_self\<lparr>self_n_heads := 1\<rparr> = unit_self"
    by (simp add: unit_self_def)
  then show ?thesis
    using unit_self_call by (simp only: unit_forward)
qed

theorem forward_needs_global_head_count_witness:
  "(\<exists>out. MultiHeadedAttention_forward 1 unit_supply \<lparr>cfg_n_heads = 1, cfg_d_model = 1\<rparr>
      (query_16, query_16, query_16) None = Inr out) \<and>
   cfg_n_heads \<lparr>cfg_n_heads = 1, cfg_d_model = 1\<rparr> \<le> 1 \<and>
   MultiHeadedAttention_forward 1 unit_supply \<lparr>cfg_n_heads = 1, cfg_d_model = 1\<rparr>
      (query_16, query_16, query_16) None \<noteq> Inl KeyError \<and>
   MultiHeadedAttention_forward 1 unit_supply \<lparr>cfg_n_heads = 2, cfg_d_model = 1\<rparr>
      (query_16, query_16, query_16) None = Inl KeyError"
proof -
  obtain out where out: "MultiHeadedAttention_forward 1 unit_supply
      \<lparr>cfg_n_heads = 1, cfg_d_model = 1\<rparr> (query_16, query_16, query_16) None = Inr out"
    using unit_forward_one by blast
  note t = forward_needs_global_head_count
      [of 1 unit_supply "\<lparr>cfg_n_heads = 1, cfg_d_model = 1\<rparr>"
        "(query_16, query_16, query_16)" None out]
  have le: "cfg_n_heads \<lparr>cfg_n_heads = 1, cfg_d_model = 1\<rparr> \<le> 1"
    using t out by blast
  then have ok: "MultiHeadedAttention_forward 1 unit_supply \<lparr>cfg_n_heads = 1, cfg_d_model = 1\<rparr>
      (query_16, query_16, query_16) None \<noteq> Inl KeyError"
    using t by blast
  have r: "range_py 1 = [0]"
    by (simp add: range_py_def)
  obtain v where "attention_head unit_self 0 (query_16, query_16, query_16) None = Inr v"
    using unit_self_head by blast
  then have heads: "\<forall>h\<in>set (range_py 1). \<exists>v. attention_head (unit_self\<lparr>self_n_heads := 2\<rparr>) h
      (query_16, query_16, query_16) None = Inr v"
    by (simp add: r attention_head_n_heads_update)
  have hyp: "MultiHeadedAttention_build 1 unit_supply \<lparr>cfg_n_heads = 2, cfg_d_model = 1\<rparr> =
        Inr (unit_self\<lparr>self_n_heads := 2\<rparr>) \<and>
      (0::int) \<le> 1 \<and> 1 < cfg_n_heads \<lparr>cfg_n_heads = 2, cfg_d_model = 1\<rparr> \<and>
      (\<forall>h\<in>set (range_py 1). \<exists>v. attention_head (unit_self\<lparr>self_n_heads := 2\<rparr>) h
         (query_16, query_16, query_16) None = Inr v)"
    using heads unit_build [of 2] by simp
  have "MultiHeadedAttention_forward 1 unit_supply \<lparr>cfg_n_heads = 2, cfg_d_model = 1\<rparr>
      (query_16, query_16, query_16) None = Inl KeyError"
    using forward_needs_global_head_count
      [of 1 unit_supply "\<lparr>cfg_n_heads = 2, cfg_d_model = 1\<rparr>"
        "(query_16, query_16, query_16)" None _ "unit_self\<lparr>self_n_heads := 2\<rparr>"] hyp
    by blast
  then show ?thesis
    using out le ok by blast
qed

end
